theory Spec2Isabelle
  imports Complex_Main "HOL-Library.AList"
begin

section \<open>Documents: JSON values as Python holds them\<close>

text \<open>
  A structured document is what \<^verbatim>\<open>json.loads\<close> returns: \<^verbatim>\<open>None\<close>, a bool, an int, a
  float, a str, a list or a dict with string keys. A dict is an association list in
  insertion order; Python never holds a key twice, which \<open>wf_json\<close> states. A float
  is the rational it denotes (NaN and the infinities are no JSON values and have no
  place here).
\<close>

datatype json =
    JNull
  | JBool bool
  | JInt int
  | JFloat rat
  | JStr string
  | JList "json list"
  | JDict "(string \<times> json) list"

type_synonym dict = "(string \<times> json) list"

fun wf_json :: "json \<Rightarrow> bool" where
  "wf_json (JList xs) = list_all wf_json xs"
| "wf_json (JDict d) = (distinct (map fst d) \<and> list_all (\<lambda>(k, v). wf_json v) d)"
| "wf_json _ = True"

text \<open>
  Python's \<^verbatim>\<open>==\<close> on these values: bools, ints and floats compare by number
  (\<^verbatim>\<open>True == 1\<close>, \<^verbatim>\<open>1 == 1.0\<close>), lists element by element, dicts key by key
  whatever the order, and values of different kinds are unequal.
\<close>

fun py_num :: "json \<Rightarrow> rat option" where
  "py_num (JBool b) = Some (if b then 1 else 0)"
| "py_num (JInt i) = Some (of_int i)"
| "py_num (JFloat r) = Some r"
| "py_num _ = None"

fun py_eq :: "json \<Rightarrow> json \<Rightarrow> bool" where
  "py_eq (JList xs) (JList ys) = list_all2 py_eq xs ys"
| "py_eq (JDict d) (JDict e) =
     (length d = length e \<and>
      list_all (\<lambda>(k, v). case map_of e k of None \<Rightarrow> False | Some w \<Rightarrow> py_eq v w) d)"
| "py_eq (JStr s) (JStr t) = (s = t)"
| "py_eq JNull JNull = True"
| "py_eq a b = (case (py_num a, py_num b) of (Some x, Some y) \<Rightarrow> x = y | _ \<Rightarrow> False)"

text \<open>\<^verbatim>\<open>item in existing_items\<close>: some element of the list equals the item.\<close>

definition py_in :: "json \<Rightarrow> json list \<Rightarrow> bool" where
  "py_in item xs = list_ex (\<lambda>x. py_eq x item) xs"

text \<open>Python's truth value of a document (\<^verbatim>\<open>if not update_data\<close>).\<close>

fun truthy :: "json \<Rightarrow> bool" where
  "truthy JNull = False"
| "truthy (JBool b) = b"
| "truthy (JInt i) = (i \<noteq> 0)"
| "truthy (JFloat r) = (r \<noteq> 0)"
| "truthy (JStr s) = (s \<noteq> [])"
| "truthy (JList xs) = (xs \<noteq> [])"
| "truthy (JDict d) = (d \<noteq> [])"

text \<open>\<^verbatim>\<open>isinstance(x, dict)\<close>, \<^verbatim>\<open>isinstance(x, list)\<close> and \<^verbatim>\<open>isinstance(x, str)\<close>.\<close>

fun is_dict :: "json \<Rightarrow> bool" where
  "is_dict (JDict d) = True"
| "is_dict _ = False"

fun is_list :: "json \<Rightarrow> bool" where
  "is_list (JList xs) = True"
| "is_list _ = False"

fun is_str :: "json \<Rightarrow> bool" where
  "is_str (JStr s) = True"
| "is_str _ = False"

section \<open>Merge Engine (file\_manager.py)\<close>

text \<open>
  The inner loop of \<^verbatim>\<open>deep_merge_dict\<close>:
  \<^verbatim>\<open>
  for item in value:
      if item not in existing_items:
          existing_items.append(item)
  \<close>
\<close>

fun extend_unique :: "json list \<Rightarrow> json list \<Rightarrow> json list" where
  "extend_unique existing_items [] = existing_items"
| "extend_unique existing_items (item # rest) =
     extend_unique
       (if \<not> py_in item existing_items then existing_items @ [item] else existing_items)
       rest"

text \<open>
  \<^verbatim>\<open>deep_merge_dict(base, updates)\<close>: \<open>result\<close> starts as the copy of \<open>base\<close> and the
  loop runs over \<^verbatim>\<open>updates.items()\<close>. An assignment \<^verbatim>\<open>result[key] = v\<close> keeps the
  place of a key the dict has and puts a new key last (\<open>AList.update\<close>).
  This is the value the call returns; what the call does to the objects it was
  given is the subject of the store model further down (\<open>deep_merge_dict_h\<close>).
\<close>

function deep_merge_dict :: "dict \<Rightarrow> dict \<Rightarrow> dict" where
  "deep_merge_dict result [] = result"
| "deep_merge_dict result ((key, value) # updates) =
     deep_merge_dict
       (case map_of result key of
          Some cur \<Rightarrow>
            (case (cur, value) of
               (JDict d, JDict u) \<Rightarrow> AList.update key (JDict (deep_merge_dict d u)) result
             | (JList existing_items, JList new_items) \<Rightarrow>
                 AList.update key (JList (extend_unique existing_items new_items)) result
             | _ \<Rightarrow> AList.update key value result)
        | None \<Rightarrow> result @ [(key, value)])
       updates"
  by pat_completeness auto
termination
  by (relation "measure (\<lambda>(r, u). size_list (size_prod (\<lambda>_. 0) size) u)") auto

text \<open>
  The value one iteration leaves under \<open>key\<close>, given what \<open>result\<close> held there
  (\<open>None\<close>: the key is new).
\<close>

definition merge_value :: "json option \<Rightarrow> json \<Rightarrow> json" where
  "merge_value cur value =
     (case cur of
        None \<Rightarrow> value
      | Some (JDict d) \<Rightarrow>
          (case value of JDict u \<Rightarrow> JDict (deep_merge_dict d u) | _ \<Rightarrow> value)
      | Some (JList existing_items) \<Rightarrow>
          (case value of
             JList new_items \<Rightarrow> JList (extend_unique existing_items new_items)
           | _ \<Rightarrow> value)
      | Some _ \<Rightarrow> value)"

text \<open>One iteration of the loop over \<^verbatim>\<open>updates.items()\<close>, on the running \<open>result\<close>.\<close>

definition merge_entry :: "dict \<Rightarrow> string \<Rightarrow> json \<Rightarrow> dict" where
  "merge_entry result key value =
     (case map_of result key of
          None \<Rightarrow> result @ [(key, value)]
        | Some cur \<Rightarrow> AList.update key (merge_value (Some cur) value) result)"

text \<open>
  The spec's wording of the merged sequence, for comparison with \<open>extend_unique\<close>:
  the elements of the update's sequence that are not already present when their turn
  comes, that is, equal to no element of the current sequence and to no earlier element
  of the update's sequence, in the update's order.
\<close>

definition not_already_present :: "json list \<Rightarrow> json list \<Rightarrow> json list" where
  "not_already_present cur upd =
     map (\<lambda>i. upd ! i)
       (filter (\<lambda>i. \<not> py_in (upd ! i) (cur @ take i upd)) [0..<length upd])"

text \<open>
  The exceptions of the code. \<^verbatim>\<open>deep_merge_dict\<close> is annotated for dicts, and
  \<^verbatim>\<open>read_json_file\<close> returns whatever the file holds: on a list the call fails at the
  first \<^verbatim>\<open>result[key] = ...\<close> (TypeError; with no update key the copy of the list
  comes back), on any other value at \<^verbatim>\<open>base.copy()\<close> (AttributeError).
\<close>

datatype error =
  ValueError | FileNotFoundError | TypeError | AttributeError | KeyError | OtherError

fun deep_merge_doc :: "json \<Rightarrow> dict \<Rightarrow> error + json" where
  "deep_merge_doc (JDict base) updates = Inr (JDict (deep_merge_dict base updates))"
| "deep_merge_doc (JList xs) updates = (if updates = [] then Inr (JList xs) else Inl TypeError)"
| "deep_merge_doc _ updates = Inl AttributeError"

text \<open>The strategy dispatch of \<^verbatim>\<open>update_json_file\<close> (structured documents).\<close>

definition apply_strategy :: "string \<Rightarrow> json \<Rightarrow> dict \<Rightarrow> error + json" where
  "apply_strategy merge_strategy current_data update_data =
     (if merge_strategy = ''replace'' then Inr (JDict update_data)
      else if merge_strategy = ''merge'' then deep_merge_doc current_data update_data
      else if merge_strategy = ''append'' then deep_merge_doc current_data update_data
      else Inl ValueError)"

section \<open>Document Store (file\_manager.py)\<close>

text \<open>
  The disk holds text files. \<^verbatim>\<open>json.loads\<close>, \<^verbatim>\<open>json.dump\<close> and \<^verbatim>\<open>str.strip\<close> are
  library code: the model takes them as the parameters \<open>loads\<close> (\<open>None\<close>:
  JSONDecodeError), \<open>dumps\<close>, \<open>dumps_sorted\<close> (\<^verbatim>\<open>json.dumps(..., sort_keys=True)\<close>)
  and \<open>str_strip\<close> (Python strips every Unicode space, which a list of bytes cannot
  say). A project file is addressed by project name and file name, the two shared
  files by their own constructors. A file's content is the text as the code wrote
  it (line ends as on a system whose line separator is LF). Failures of the operating
  system (permissions, a disk that is full) are outside the model.
\<close>

datatype path = ProjectFile string string | REGISTRY_FILE | CURRENT_PROJECT_FILE

record disk =
  dirs :: "string \<Rightarrow> bool"
  files :: "path \<Rightarrow> string option"

record codec =
  loads :: "string \<Rightarrow> json option"
  dumps :: "json \<Rightarrow> string"
  dumps_sorted :: "json \<Rightarrow> string"
  str_strip :: "string \<Rightarrow> string"

definition VALID_FILE_TYPES :: "string list" where
  "VALID_FILE_TYPES =
     [''requirement.js'', ''ddd.js'', ''frontend_data.js'', ''technical_architecture.js'',
      ''summary.md'']"

definition endswith :: "string \<Rightarrow> string \<Rightarrow> bool" where
  "endswith s suffix = (length suffix \<le> length s \<and> drop (length s - length suffix) s = suffix)"

text \<open>
  What \<^verbatim>\<open>f.read()\<close> returns for a file opened in text mode: the content with every
  CR LF and every lone CR turned into LF.
\<close>

fun universal_newlines :: "string \<Rightarrow> string" where
  "universal_newlines [] = []"
| "universal_newlines [c] = (if c = CHR 0x0D then [CHR 0x0A] else [c])"
| "universal_newlines (c # d # cs) =
     (if c = CHR 0x0D \<and> d = CHR 0x0A then CHR 0x0A # universal_newlines cs
      else if c = CHR 0x0D then CHR 0x0A # universal_newlines (d # cs)
      else c # universal_newlines (d # cs))"

definition read_text_file :: "string \<Rightarrow> string" where
  "read_text_file text = universal_newlines text"

text \<open>\<^verbatim>\<open>sub in s\<close> on strings: \<open>sub\<close> occurs in \<open>s\<close>.\<close>

fun py_contains :: "string \<Rightarrow> string \<Rightarrow> bool" where
  "py_contains sub [] = (sub = [])"
| "py_contains sub (c # cs) = (take (length sub) (c # cs) = sub \<or> py_contains sub cs)"

definition project_exists :: "disk \<Rightarrow> string \<Rightarrow> bool" where
  "project_exists fs project_name = dirs fs project_name"

definition read_json_file :: "codec \<Rightarrow> string \<Rightarrow> json" where
  "read_json_file cd text =
     (let content = str_strip cd (universal_newlines text) in
      if content = [] then JDict []
      else (case loads cd content of Some j \<Rightarrow> j | None \<Rightarrow> JDict []))"

definition write_json_file :: "codec \<Rightarrow> disk \<Rightarrow> path \<Rightarrow> json \<Rightarrow> disk" where
  "write_json_file cd fs filepath data = fs\<lparr>files := (files fs)(filepath \<mapsto> dumps cd data)\<rparr>"

definition write_text_file :: "disk \<Rightarrow> path \<Rightarrow> string \<Rightarrow> disk" where
  "write_text_file fs filepath content = fs\<lparr>files := (files fs)(filepath \<mapsto> content)\<rparr>"

text \<open>
  \<^verbatim>\<open>update_json_file(project_name, file_type, update_data, merge_strategy)\<close>. The
  result is what the call returns or raises, together with the disk it leaves.
\<close>

definition update_json_file ::
  "codec \<Rightarrow> disk \<Rightarrow> string \<Rightarrow> string \<Rightarrow> json \<Rightarrow> string \<Rightarrow> (error + json) \<times> disk" where
  "update_json_file cd fs project_name file_type update_data merge_strategy =
     (if file_type \<notin> set VALID_FILE_TYPES then (Inl ValueError, fs)
      else if \<not> project_exists fs project_name then (Inl ValueError, fs)
      else (case files fs (ProjectFile project_name file_type) of
        None \<Rightarrow> (Inl FileNotFoundError, fs)
      | Some text \<Rightarrow>
          if endswith file_type ''.md'' then
            (case update_data of
               JStr s \<Rightarrow> (Inr (JStr s), write_text_file fs (ProjectFile project_name file_type) s)
             | _ \<Rightarrow> (Inl ValueError, fs))
          else
            (case update_data of
               JDict u \<Rightarrow>
                 (case apply_strategy merge_strategy (read_json_file cd text) u of
                    Inl e \<Rightarrow> (Inl e, fs)
                  | Inr new_data \<Rightarrow>
                      (Inr new_data,
                       write_json_file cd fs (ProjectFile project_name file_type) new_data))
             | _ \<Rightarrow> (Inl ValueError, fs))))"

record project_files =
  pf_requirements :: json
  pf_ddd :: json
  pf_frontend_data :: json
  pf_technical_architecture :: json
  pf_summary :: string

text \<open>
  \<^verbatim>\<open>read_project_files(project_name)\<close>: \<open>None\<close> when the directory or one of the four
  structured files is missing; the summary is optional.
\<close>

definition read_project_files :: "codec \<Rightarrow> disk \<Rightarrow> string \<Rightarrow> project_files option" where
  "read_project_files cd fs project_name =
     (if \<not> dirs fs project_name then None
      else
        (case (files fs (ProjectFile project_name ''requirement.js''),
               files fs (ProjectFile project_name ''ddd.js''),
               files fs (ProjectFile project_name ''frontend_data.js''),
               files fs (ProjectFile project_name ''technical_architecture.js'')) of
           (Some r, Some d, Some f, Some t) \<Rightarrow>
             Some \<lparr>pf_requirements = read_json_file cd r,
                   pf_ddd = read_json_file cd d,
                   pf_frontend_data = read_json_file cd f,
                   pf_technical_architecture = read_json_file cd t,
                   pf_summary =
                     (case files fs (ProjectFile project_name ''summary.md'') of
                        Some text \<Rightarrow> read_text_file text | None \<Rightarrow> [])\<rparr>
         | _ \<Rightarrow> None))"

text \<open>
  \<^verbatim>\<open>delete_project_directory\<close>. \<^verbatim>\<open>shutil.rmtree\<close> is called with the handler
  \<^verbatim>\<open>handle_remove_readonly\<close>, which swallows every exception, so \<^verbatim>\<open>rmtree\<close> returns
  and the function returns \<^verbatim>\<open>True\<close> whether or not the operating system let the tree
  go; the retry after \<^verbatim>\<open>except Exception as e1\<close> is never reached. Whether the tree
  went is the parameter \<open>tree_stays\<close>; a tree that stays is taken to stay whole.
\<close>

definition delete_project_directory :: "bool \<Rightarrow> disk \<Rightarrow> string \<Rightarrow> error + disk" where
  "delete_project_directory tree_stays fs project_name =
     (if \<not> project_exists fs project_name then Inl ValueError
      else if tree_stays then Inr fs
      else Inr (fs\<lparr>dirs := (dirs fs)(project_name := False),
                   files := (\<lambda>p. case p of
                       ProjectFile q f \<Rightarrow> if q = project_name then None else files fs p
                     | _ \<Rightarrow> files fs p)\<rparr>))"

text \<open>
  The registry file. Read as anything but a dict it makes the code fail:
  \<^verbatim>\<open>"projects" not in registry\<close> is a TypeError on a number, a bool or \<^verbatim>\<open>None\<close>, a
  membership test on a list and a substring test on a string; after it
  \<^verbatim>\<open>registry["projects"] = {}\<close> and \<^verbatim>\<open>registry["projects"]\<close> are TypeErrors and
  \<^verbatim>\<open>registry.get\<close> is an AttributeError.
\<close>

definition registry_update_error :: "json \<Rightarrow> error" where
  "registry_update_error registry =
     (case registry of
        JList xs \<Rightarrow> if py_in (JStr ''projects'') xs then AttributeError else TypeError
      | JStr s \<Rightarrow> if py_contains ''projects'' s then AttributeError else TypeError
      | _ \<Rightarrow> TypeError)"

definition registry_remove_error :: "json \<Rightarrow> error" where
  "registry_remove_error registry =
     (case registry of
        JList xs \<Rightarrow> if py_in (JStr ''projects'') xs then TypeError else ValueError
      | JStr s \<Rightarrow> if py_contains ''projects'' s then TypeError else ValueError
      | j \<Rightarrow> if truthy j then TypeError else ValueError)"

definition update_project_registry :: "codec \<Rightarrow> disk \<Rightarrow> string \<Rightarrow> dict \<Rightarrow> error + disk" where
  "update_project_registry cd fs project_name metadata =
     (case (case files fs REGISTRY_FILE of
              None \<Rightarrow> JDict [(''projects'', JDict [])]
            | Some text \<Rightarrow> read_json_file cd text) of
        JDict registry \<Rightarrow>
          (let projects = (case map_of registry ''projects'' of Some (JDict p) \<Rightarrow> p | _ \<Rightarrow> [])
           in Inr (write_json_file cd fs REGISTRY_FILE
                (JDict (AList.update ''projects''
                   (JDict (AList.update project_name (JDict metadata) projects)) registry))))
      | j \<Rightarrow> Inl (registry_update_error j))"

definition remove_from_registry :: "codec \<Rightarrow> disk \<Rightarrow> string \<Rightarrow> error + disk" where
  "remove_from_registry cd fs project_name =
     (case files fs REGISTRY_FILE of
        None \<Rightarrow> Inl ValueError
      | Some text \<Rightarrow>
          (case read_json_file cd text of
             JDict registry \<Rightarrow>
               (case map_of registry ''projects'' of
                  None \<Rightarrow> Inl ValueError
                | Some (JDict projects) \<Rightarrow>
                    if map_of projects project_name = None then Inl ValueError
                    else Inr (write_json_file cd fs REGISTRY_FILE
                      (JDict (AList.update ''projects''
                         (JDict (AList.delete project_name projects)) registry)))
                | Some _ \<Rightarrow> Inl ValueError)
           | j \<Rightarrow> Inl (registry_remove_error j)))"

text \<open>The marker record. The clock is a parameter: the ISO text and the milliseconds.\<close>

record clock =
  now_iso :: string
  now_ms :: int

definition write_current_project :: "codec \<Rightarrow> clock \<Rightarrow> disk \<Rightarrow> string \<Rightarrow> disk" where
  "write_current_project cd now fs project_name =
     write_json_file cd fs CURRENT_PROJECT_FILE
       (JDict [(''project_name'', JStr project_name),
               (''timestamp'', JStr (now_iso now)),
               (''version'', JInt (now_ms now))])"

definition read_current_project :: "codec \<Rightarrow> disk \<Rightarrow> json" where
  "read_current_project cd fs =
     (case files fs CURRENT_PROJECT_FILE of
        None \<Rightarrow> JDict []
      | Some text \<Rightarrow> read_json_file cd text)"

section \<open>Subscriber Hub (broadcast\_manager.py)\<close>

text \<open>
  \<^verbatim>\<open>current_project_data\<close> of the server, and its copy in the broadcast manager: a
  dict with these keys (the fields carry the prefix \<open>st\<close>).
\<close>

record project_state =
  st_project_name :: string
  st_requirements :: json
  st_ddd :: json
  st_frontend_data :: json
  st_technical_architecture :: json
  st_summary :: json
  st_version :: int
  st_last_updated :: string
  st_last_command :: string

text \<open>
  The globals of the broadcast manager. \<open>connected_frontends\<close> is a Python set of
  connections, here a list without repetition. The model's view of the network is two
  logs: \<open>attempted\<close> records, in order, every call of \<^verbatim>\<open>client.send\<close>, and
  \<open>delivered\<close> those of them that reached the subscriber (who gets the text
  \<^verbatim>\<open>json.dumps\<close> makes of the message).
  \<open>last_known_version\<close> holds a Python number, modelled by its value.
\<close>

type_synonym client = nat

record bm_state =
  connected_frontends :: "client list"
  bm_project_data :: project_state
  last_known_version :: rat
  attempted :: "(client \<times> json) list"
  delivered :: "(client \<times> json) list"

text \<open>
  \<^verbatim>\<open>await client.send(...)\<close> returns or raises; which of the two is the network's
  choice, the parameter \<open>send_ok\<close>. \<^verbatim>\<open>asyncio.gather\<close> runs every send; with
  \<^verbatim>\<open>return_exceptions=True\<close> an exception is one of the results, without it the first
  exception is raised to the caller.
\<close>

datatype outcome = Returned | Raised error

definition client_send :: "(client \<Rightarrow> bool) \<Rightarrow> client \<Rightarrow> outcome" where
  "client_send send_ok c = (if send_ok c then Returned else Raised OtherError)"

fun first_raised :: "outcome list \<Rightarrow> error option" where
  "first_raised [] = None"
| "first_raised (Returned # rs) = first_raised rs"
| "first_raised (Raised e # rs) = Some e"

definition gather :: "bool \<Rightarrow> outcome list \<Rightarrow> error + outcome list" where
  "gather return_exceptions rs =
     (if return_exceptions then Inr rs
      else (case first_raised rs of Some e \<Rightarrow> Inl e | None \<Rightarrow> Inr rs))"

definition broadcast_to_frontends ::
  "(client \<Rightarrow> bool) \<Rightarrow> json \<Rightarrow> bm_state \<Rightarrow> (error + unit) \<times> bm_state" where
  "broadcast_to_frontends send_ok message b =
     (if connected_frontends b \<noteq> [] then
        (let sends = map (client_send send_ok) (connected_frontends b);
             b' = b\<lparr>attempted := attempted b @
                    map (\<lambda>c. (c, message)) (connected_frontends b),
                  delivered := delivered b @
                    map (\<lambda>c. (c, message)) (filter send_ok (connected_frontends b))\<rparr>
         in (case gather True sends of Inl e \<Rightarrow> (Inl e, b') | Inr rs \<Rightarrow> (Inr (), b')))
      else (Inr (), b))"

text \<open>
  Registration: \<^verbatim>\<open>connected_frontends.add(websocket)\<close> when a connection opens,
  \<^verbatim>\<open>connected_frontends.remove(websocket)\<close> in the \<^verbatim>\<open>finally\<close> of its handler (a
  KeyError when the set does not hold it).
\<close>

definition register :: "client \<Rightarrow> bm_state \<Rightarrow> bm_state" where
  "register c b =
     (if c \<in> set (connected_frontends b) then b
      else b\<lparr>connected_frontends := connected_frontends b @ [c]\<rparr>)"

definition unregister :: "client \<Rightarrow> bm_state \<Rightarrow> error + bm_state" where
  "unregister c b =
     (if c \<in> set (connected_frontends b)
      then Inr (b\<lparr>connected_frontends := removeAll c (connected_frontends b)\<rparr>)
      else Inl KeyError)"

text \<open>
  \<^verbatim>\<open>keep_alive\<close>, the heartbeat of one connection. Each round sleeps, then pings if the
  connection is still registered; a ping that fails, or a connection no longer
  registered, ends the loop. The outcomes of the pings to come are the list \<open>pings\<close>;
  the loop returns the number of pings sent, whether it came to its end (\<open>False\<close>:
  still running when the list ran out), and the state.
\<close>

fun keep_alive :: "bool list \<Rightarrow> client \<Rightarrow> bm_state \<Rightarrow> nat \<times> bool \<times> bm_state" where
  "keep_alive [] c b = (0, False, b)"
| "keep_alive (ping_ok # pings) c b =
     (if c \<in> set (connected_frontends b) then
        (if ping_ok then (case keep_alive pings c b of (n, ended, b') \<Rightarrow> (Suc n, ended, b'))
         else (1, True, b))
      else (0, True, b))"

definition set_current_project_data :: "project_state \<Rightarrow> bm_state \<Rightarrow> bm_state" where
  "set_current_project_data project_data b = b\<lparr>bm_project_data := project_data\<rparr>"

section \<open>Cross-Instance Sync Watcher (broadcast\_manager.py)\<close>

text \<open>
  One round of \<^verbatim>\<open>watch_current_project_file\<close> after its sleep. Every exception is
  caught inside the loop, so a round that fails leaves what it had done before the
  failure: nothing, or the new \<open>last_known_version\<close> when \<^verbatim>\<open>read_project_files\<close> fails
  on a project name that is no string.
\<close>

definition watcher_message :: "clock \<Rightarrow> dict \<Rightarrow> json \<Rightarrow> string \<Rightarrow> project_files \<Rightarrow> json" where
  "watcher_message now info file_version name pf =
     JDict [(''type'', JStr ''project_switched''),
            (''action'', JStr ''switch''),
            (''force_update'', JBool True),
            (''version'', file_version),
            (''timestamp'',
               (case map_of info ''timestamp'' of Some t \<Rightarrow> t | None \<Rightarrow> JStr (now_iso now))),
            (''command'', JStr ''file_watcher''),
            (''data'', JDict [(''project_name'', JStr name),
                              (''requirements'', pf_requirements pf),
                              (''ddd'', pf_ddd pf),
                              (''frontend_data'', pf_frontend_data pf),
                              (''technical_architecture'', pf_technical_architecture pf)])]"

text \<open>\<^verbatim>\<open>current_project_info.get("version", 0)\<close>.\<close>

definition marker_version :: "dict \<Rightarrow> json" where
  "marker_version info = (case map_of info ''version'' of Some v \<Rightarrow> v | None \<Rightarrow> JInt 0)"

definition watch_tick ::
  "codec \<Rightarrow> clock \<Rightarrow> (client \<Rightarrow> bool) \<Rightarrow> disk \<Rightarrow> bm_state \<Rightarrow> bm_state" where
  "watch_tick cd now send_ok fs b =
     (case read_current_project cd fs of
        JDict info \<Rightarrow>
          (case map_of info ''project_name'' of
             None \<Rightarrow> b
           | Some name \<Rightarrow>
               (let file_version = marker_version info
                in (case py_num file_version of
                      None \<Rightarrow> b
                    | Some v \<Rightarrow>
                        if v > last_known_version b then
                          (let b1 = b\<lparr>last_known_version := v\<rparr>
                           in (case name of
                                 JStr project_name \<Rightarrow>
                                   (case read_project_files cd fs project_name of
                                      Some pf \<Rightarrow>
                                        if connected_frontends b1 \<noteq> [] then
                                          snd (broadcast_to_frontends send_ok
                                            (watcher_message now info file_version project_name pf) b1)
                                        else b1
                                    | None \<Rightarrow> b1)
                               | _ \<Rightarrow> b1))
                        else b)))
      | _ \<Rightarrow> b)"

text \<open>
  A run of the watcher: one round per moment, each with the clock, the network and
  the disk of that moment.
\<close>

fun watch_run ::
  "codec \<Rightarrow> (clock \<times> (client \<Rightarrow> bool) \<times> disk) list \<Rightarrow> bm_state \<Rightarrow> bm_state" where
  "watch_run cd [] b = b"
| "watch_run cd ((now, send_ok, fs) # rest) b = watch_run cd rest (watch_tick cd now send_ok fs b)"

section \<open>State Store and command handlers (server\_mcp\_sdk.py)\<close>

text \<open>
  The process: the server's \<^verbatim>\<open>current_project_data\<close> and \<^verbatim>\<open>state_version\<close>, the
  globals of the broadcast manager, and the disk.
\<close>

record world =
  current_project_data :: project_state
  state_version :: int
  manager :: bm_state
  storage :: disk

definition initial_project_state :: project_state where
  "initial_project_state =
     \<lparr>st_project_name = [], st_requirements = JDict [], st_ddd = JDict [],
      st_frontend_data = JDict [], st_technical_architecture = JDict [],
      st_summary = JStr [], st_version = 0, st_last_updated = [], st_last_command = []\<rparr>"

definition initial_world :: "disk \<Rightarrow> world" where
  "initial_world d =
     \<lparr>current_project_data = initial_project_state, state_version = 0,
      manager = \<lparr>connected_frontends = [], bm_project_data = initial_project_state,
                 last_known_version = 0, attempted = [], delivered = []\<rparr>,
      storage = d\<rparr>"

text \<open>
  What a handler answers: the \<open>status\<close> field of its result, or the exception it lets
  escape to the framework.
\<close>

datatype status = StatusSuccess | StatusError | StatusPartialSuccess | Escaped error

text \<open>\<^verbatim>\<open>s.replace(old, "")\<close>.\<close>

function py_remove :: "string \<Rightarrow> string \<Rightarrow> string" where
  "py_remove old s =
     (if old = [] \<or> s = [] then s
      else if take (length old) s = old then py_remove old (drop (length old) s)
      else hd s # py_remove old (tl s))"
  by pat_completeness auto
termination
  by (relation "measure (\<lambda>(old, s). length s)") auto

definition file_key_of :: "string \<Rightarrow> string" where
  "file_key_of file_type =
     (let file_key = py_remove ''.md'' (py_remove ''.js'' file_type)
      in if file_key = ''requirement'' then ''requirements'' else file_key)"

text \<open>
  \<^verbatim>\<open>current_project_data[file_key] = updated_data\<close>. The file type was validated
  before, so the key is one of the five document keys.
\<close>

definition set_doc :: "string \<Rightarrow> json \<Rightarrow> project_state \<Rightarrow> project_state" where
  "set_doc file_key v st =
     (if file_key = ''requirements'' then st\<lparr>st_requirements := v\<rparr>
      else if file_key = ''ddd'' then st\<lparr>st_ddd := v\<rparr>
      else if file_key = ''frontend_data'' then st\<lparr>st_frontend_data := v\<rparr>
      else if file_key = ''technical_architecture'' then st\<lparr>st_technical_architecture := v\<rparr>
      else if file_key = ''summary'' then st\<lparr>st_summary := v\<rparr>
      else st)"

definition documents_data :: "string \<Rightarrow> project_state \<Rightarrow> json" where
  "documents_data name st =
     JDict [(''project_name'', JStr name),
            (''requirements'', st_requirements st),
            (''ddd'', st_ddd st),
            (''frontend_data'', st_frontend_data st),
            (''technical_architecture'', st_technical_architecture st)]"

record update_args =
  arg_project_name :: string
  arg_file_type :: string
  arg_update_data :: json
  arg_merge_strategy :: "string option"

definition update_message :: "int \<Rightarrow> string \<Rightarrow> string \<Rightarrow> string \<Rightarrow> string \<Rightarrow> project_state \<Rightarrow> json" where
  "update_message v timestamp file_type merge_strategy name st =
     JDict [(''type'', JStr ''files_updated''),
            (''action'', JStr ''update''),
            (''force_update'', JBool True),
            (''version'', JInt v),
            (''timestamp'', JStr timestamp),
            (''command'', JStr ''update_project_files''),
            (''updated_file'', JStr file_type),
            (''merge_strategy'', JStr merge_strategy),
            (''data'', documents_data name st)]"

text \<open>
  The first step of \<^verbatim>\<open>handle_update_project_files\<close>: a payload that arrives as a
  string for a structured file is parsed with \<^verbatim>\<open>json.loads\<close>; \<open>None\<close> stands for the
  JSONDecodeError, which the handler answers with an error.
\<close>

definition convert_update_data :: "codec \<Rightarrow> string \<Rightarrow> json \<Rightarrow> json option" where
  "convert_update_data cd file_type update_data =
     (if file_type \<noteq> [] \<and> \<not> endswith file_type ''.md'' then
        (case update_data of JStr s \<Rightarrow> loads cd s | d \<Rightarrow> Some d)
      else Some update_data)"

text \<open>
  \<^verbatim>\<open>handle_update_project_files\<close>. An absent argument reads as \<^verbatim>\<open>None\<close>, which the
  checks treat as they treat the empty string and \<^verbatim>\<open>null\<close>.
\<close>

definition handle_update_project_files ::
  "codec \<Rightarrow> clock \<Rightarrow> (client \<Rightarrow> bool) \<Rightarrow> update_args \<Rightarrow> world \<Rightarrow> status \<times> world" where
  "handle_update_project_files cd now send_ok args w =
     (let project_name = arg_project_name args;
          file_type = arg_file_type args;
          merge_strategy = (case arg_merge_strategy args of None \<Rightarrow> ''merge'' | Some m \<Rightarrow> m);
          converted = convert_update_data cd file_type (arg_update_data args)
      in (case converted of
            None \<Rightarrow> (StatusError, w)
          | Some update_data \<Rightarrow>
              if project_name = [] then (StatusError, w)
              else if file_type = [] then (StatusError, w)
              else if \<not> truthy update_data then (StatusError, w)
              else if file_type \<notin> set VALID_FILE_TYPES then (StatusError, w)
              else if \<not> project_exists (storage w) project_name then (StatusError, w)
              else
                (case update_json_file cd (storage w) project_name file_type update_data
                        merge_strategy of
                   (Inl e, fs') \<Rightarrow> (StatusError, w)
                 | (Inr updated_data, fs') \<Rightarrow>
                     (let v = state_version w + 1;
                          timestamp = now_iso now;
                          st = (set_doc (file_key_of file_type) updated_data
                                  (current_project_data w))
                               \<lparr>st_project_name := project_name, st_version := v,
                                st_last_updated := timestamp,
                                st_last_command := ''update_project_files''\<rparr>;
                          b1 = set_current_project_data st (manager w);
                          fs1 = write_current_project cd now fs' project_name;
                          w1 = w\<lparr>current_project_data := st, state_version := v,
                                 manager := b1, storage := fs1\<rparr>
                      in (case update_project_registry cd fs1 project_name
                                 [(''last_updated'', JStr timestamp), (''status'', JStr ''updated'')] of
                            Inl e \<Rightarrow> (StatusError, w1)
                          | Inr fs2 \<Rightarrow>
                              (StatusSuccess,
                               w1\<lparr>storage := fs2,
                                  manager := snd (broadcast_to_frontends send_ok
                                    (update_message v timestamp file_type merge_strategy
                                       project_name st) b1)\<rparr>))))))"

definition select_message :: "int \<Rightarrow> string \<Rightarrow> string \<Rightarrow> string \<Rightarrow> project_state \<Rightarrow> json" where
  "select_message v timestamp previous_project name st =
     (let is_project_switch = (previous_project \<noteq> [] \<and> previous_project \<noteq> name)
      in JDict [(''type'', JStr (if is_project_switch then ''project_switched''
                                  else ''project_initialized'')),
                (''action'', JStr (if is_project_switch then ''switch'' else ''initialize'')),
                (''force_update'', JBool True),
                (''version'', JInt v),
                (''timestamp'', JStr timestamp),
                (''command'', JStr ''select_project''),
                (''previous_project'', if is_project_switch then JStr previous_project else JNull),
                (''data'', documents_data name st)])"

text \<open>
  \<^verbatim>\<open>handle_select_project\<close>. The front-end development server is an external
  service; \<open>react_raises\<close> says whether checking or starting it raised, which the
  handler answers with an error before it touches the state.
\<close>

definition handle_select_project ::
  "codec \<Rightarrow> clock \<Rightarrow> (client \<Rightarrow> bool) \<Rightarrow> bool \<Rightarrow> string \<Rightarrow> world \<Rightarrow> status \<times> world" where
  "handle_select_project cd now send_ok react_raises project_name w =
     (let previous_project = st_project_name (current_project_data w)
      in if project_name = [] then (StatusError, w)
         else if \<not> project_exists (storage w) project_name then (StatusError, w)
         else if react_raises then (StatusError, w)
         else
           (case read_project_files cd (storage w) project_name of
              None \<Rightarrow> (StatusError, w)
            | Some project_files \<Rightarrow>
                (let v = state_version w + 1;
                     timestamp = now_iso now;
                     st = (current_project_data w)
                            \<lparr>st_project_name := project_name,
                             st_requirements := pf_requirements project_files,
                             st_ddd := pf_ddd project_files,
                             st_frontend_data := pf_frontend_data project_files,
                             st_technical_architecture := pf_technical_architecture project_files,
                             st_summary := JStr (pf_summary project_files),
                             st_version := v,
                             st_last_updated := timestamp,
                             st_last_command := ''select_project''\<rparr>;
                     b1 = set_current_project_data st (manager w);
                     fs1 = write_current_project cd now (storage w) project_name
                 in (StatusSuccess,
                     w\<lparr>current_project_data := st, state_version := v, storage := fs1,
                       manager := snd (broadcast_to_frontends send_ok
                         (select_message v timestamp previous_project project_name st) b1)\<rparr>))))"

definition delete_message :: "int \<Rightarrow> string \<Rightarrow> string \<Rightarrow> json" where
  "delete_message v timestamp name =
     JDict [(''type'', JStr ''project_deleted''),
            (''action'', JStr ''delete''),
            (''force_update'', JBool True),
            (''version'', JInt v),
            (''timestamp'', JStr timestamp),
            (''command'', JStr ''delete_project''),
            (''data'', JDict [(''project_name'', JStr name),
                              (''message'', JStr (''Project '' @ [CHR 0x27] @ name @ [CHR 0x27]
                                                   @ '' has been deleted''))])]"

text \<open>
  \<^verbatim>\<open>handle_delete_project\<close>. The project counts as active when the State Store names
  it or when the shared marker record names it. The marker is read outside any
  \<^verbatim>\<open>try\<close>: a marker file that holds no dict makes \<^verbatim>\<open>.get\<close> raise out of the handler.
\<close>

definition handle_delete_project ::
  "codec \<Rightarrow> clock \<Rightarrow> (client \<Rightarrow> bool) \<Rightarrow> bool \<Rightarrow> string \<Rightarrow> world \<Rightarrow> status \<times> world" where
  "handle_delete_project cd now send_ok tree_stays project_name w =
     (if project_name = [] then (StatusError, w)
      else if \<not> project_exists (storage w) project_name then (StatusError, w)
      else
        (let is_active_project_local = (st_project_name (current_project_data w) = project_name)
         in (case read_current_project cd (storage w) of
               JDict shared_project_info \<Rightarrow>
                 (let is_active_project_shared =
                        (case map_of shared_project_info ''project_name'' of
                           Some j \<Rightarrow> py_eq j (JStr project_name) | None \<Rightarrow> False);
                      is_active_project = (is_active_project_local \<or> is_active_project_shared)
                  in (case delete_project_directory tree_stays (storage w) project_name of
                        Inl ValueError \<Rightarrow> (StatusError, w)
                      | r \<Rightarrow>
                        (let folder_deleted = (case r of Inr d \<Rightarrow> True | Inl e \<Rightarrow> False);
                             fs1 = (case r of Inr d \<Rightarrow> d | Inl e \<Rightarrow> storage w);
                             rr = remove_from_registry cd fs1 project_name;
                             registry_updated = (case rr of Inr d \<Rightarrow> True | Inl e \<Rightarrow> False);
                             fs2 = (case rr of Inr d \<Rightarrow> d | Inl e \<Rightarrow> fs1);
                             w1 = w\<lparr>storage := fs2\<rparr>;
                             w2 =
                               (if is_active_project \<and> (folder_deleted \<or> registry_updated) then
                                  (let v = state_version w + 1;
                                       timestamp = now_iso now;
                                       st = (current_project_data w)
                                              \<lparr>st_project_name := [],
                                               st_requirements := JDict [],
                                               st_ddd := JDict [],
                                               st_frontend_data := JDict [],
                                               st_technical_architecture := JDict [],
                                               st_summary := JStr [],
                                               st_version := v,
                                               st_last_updated := timestamp,
                                               st_last_command := ''delete_project''\<rparr>;
                                       b1 = set_current_project_data st (manager w)
                                   in w1\<lparr>current_project_data := st, state_version := v,
                                         storage := write_current_project cd now fs2 [],
                                         manager := snd (broadcast_to_frontends send_ok
                                           (delete_message v timestamp project_name) b1)\<rparr>)
                                else w1)
                         in if folder_deleted \<and> registry_updated then (StatusSuccess, w2)
                            else if registry_updated \<and> \<not> folder_deleted then (StatusPartialSuccess, w2)
                            else (StatusError, w2))))
             | _ \<Rightarrow> (Escaped AttributeError, w))))"

text \<open>
  The test of \<^verbatim>\<open>handle_delete_project\<close> for "this is the active project", and the State
  Store it leaves when the test holds.
\<close>

definition is_active_project :: "codec \<Rightarrow> world \<Rightarrow> string \<Rightarrow> bool" where
  "is_active_project cd w project_name =
     (st_project_name (current_project_data w) = project_name
      \<or> (case read_current_project cd (storage w) of
            JDict shared_project_info \<Rightarrow>
              (case map_of shared_project_info ''project_name'' of
                 Some j \<Rightarrow> py_eq j (JStr project_name) | None \<Rightarrow> False)
          | _ \<Rightarrow> False))"

definition cleared_state :: "project_state \<Rightarrow> int \<Rightarrow> string \<Rightarrow> project_state" where
  "cleared_state st v timestamp =
     st\<lparr>st_project_name := [], st_requirements := JDict [], st_ddd := JDict [],
        st_frontend_data := JDict [], st_technical_architecture := JDict [],
        st_summary := JStr [], st_version := v, st_last_updated := timestamp,
        st_last_command := ''delete_project''\<rparr>"

section \<open>Periodic Reconciliation (server\_mcp\_sdk.py)\<close>

text \<open>
  One round of \<^verbatim>\<open>periodic_broadcast\<close> after its sleep. \<open>last_broadcast_data\<close> is the
  local variable of the task: \<^verbatim>\<open>None\<close> at the start (\<open>JNull\<close>), then the last snapshot
  sent.
\<close>

definition periodic_message :: "clock \<Rightarrow> string \<Rightarrow> project_state \<Rightarrow> json" where
  "periodic_message now name st =
     JDict [(''type'', JStr ''project_initialized''),
            (''data'', JDict [(''project_name'', JStr name),
                              (''requirements'', st_requirements st),
                              (''ddd'', st_ddd st),
                              (''frontend_data'', st_frontend_data st),
                              (''technical_architecture'', st_technical_architecture st),
                              (''timestamp'', JStr (now_iso now))])]"

definition periodic_broadcast ::
  "codec \<Rightarrow> clock \<Rightarrow> (client \<Rightarrow> bool) \<Rightarrow> world \<times> json \<Rightarrow> world \<times> json" where
  "periodic_broadcast cd now send_ok s =
     (case s of (w, last_broadcast_data) \<Rightarrow>
        (let project_name = st_project_name (current_project_data w)
         in if project_name \<noteq> [] then
              (case read_project_files cd (storage w) project_name of
                 None \<Rightarrow> (w, last_broadcast_data)
               | Some updated_data \<Rightarrow>
                   (let current_snapshot =
                          JDict [(''project_name'', JStr project_name),
                                 (''requirements'', pf_requirements updated_data),
                                 (''ddd'', pf_ddd updated_data),
                                 (''frontend_data'', pf_frontend_data updated_data),
                                 (''technical_architecture'', pf_technical_architecture updated_data)]
                    in if dumps_sorted cd current_snapshot \<noteq> dumps_sorted cd last_broadcast_data
                       then
                         (let st = (current_project_data w)
                                     \<lparr>st_requirements := pf_requirements updated_data,
                                      st_ddd := pf_ddd updated_data,
                                      st_frontend_data := pf_frontend_data updated_data,
                                      st_technical_architecture :=
                                        pf_technical_architecture updated_data\<rparr>;
                              b1 = set_current_project_data st (manager w)
                          in (w\<lparr>current_project_data := st,
                                manager := snd (broadcast_to_frontends send_ok
                                  (periodic_message now project_name st) b1)\<rparr>,
                              current_snapshot))
                       else (w, last_broadcast_data)))
            else (w, last_broadcast_data)))"

section \<open>The store: what a merge does to the objects it is given\<close>

text \<open>
  Python dicts and lists are objects: a variable or a slot holds a reference, and
  \<^verbatim>\<open>base.copy()\<close> copies the slots of one dict, not the objects behind them. The store
  is a list of objects, an address is an index into it. Functions that follow
  references take fuel, one unit per level of nesting (Python's own limit is its
  recursion depth); \<open>None\<close> stands for no result: fuel run out, an address outside
  the store, or an exception.
\<close>

type_synonym addr = nat

datatype pyval = VNone | VBool bool | VInt int | VFloat rat | VStr string | VRef addr

datatype pyobj = OList "pyval list" | ODict "(string \<times> pyval) list"

type_synonym heap = "pyobj list"

definition heap_get :: "heap \<Rightarrow> addr \<Rightarrow> pyobj option" where
  "heap_get h a = (if a < length h then Some (h ! a) else None)"

fun ref_of :: "pyval \<Rightarrow> addr option" where
  "ref_of (VRef a) = Some a"
| "ref_of _ = None"

fun scalar_json :: "pyval \<Rightarrow> json" where
  "scalar_json VNone = JNull"
| "scalar_json (VBool b) = JBool b"
| "scalar_json (VInt i) = JInt i"
| "scalar_json (VFloat r) = JFloat r"
| "scalar_json (VStr s) = JStr s"
| "scalar_json (VRef a) = JNull"

text \<open>The document a value stands for in a store.\<close>

primrec read_back :: "nat \<Rightarrow> heap \<Rightarrow> pyval \<Rightarrow> json option" where
  "read_back 0 h v = (case ref_of v of None \<Rightarrow> Some (scalar_json v) | Some a \<Rightarrow> None)"
| "read_back (Suc n) h v =
     (case ref_of v of
        None \<Rightarrow> Some (scalar_json v)
      | Some a \<Rightarrow>
          (case heap_get h a of
             None \<Rightarrow> None
           | Some (OList xs) \<Rightarrow> map_option JList (those (map (read_back n h) xs))
           | Some (ODict d) \<Rightarrow>
               map_option JDict
                 (those (map (\<lambda>(k, x). map_option (Pair k) (read_back n h x)) d))))"

text \<open>
  \<^verbatim>\<open>x == y\<close> through the store; the same object is equal to itself without a look
  (CPython compares identity first inside \<^verbatim>\<open>in\<close> and inside list equality). The
  comparison of the elements is the parameter \<open>eq\<close>.
\<close>

fun eq_list_with :: "(pyval \<Rightarrow> pyval \<Rightarrow> bool option) \<Rightarrow> pyval list \<Rightarrow> pyval list \<Rightarrow> bool option" where
  "eq_list_with eq [] ys = Some (ys = [])"
| "eq_list_with eq (x # xs) [] = Some False"
| "eq_list_with eq (x # xs) (y # ys) =
     (case eq x y of
        None \<Rightarrow> None
      | Some same \<Rightarrow> if same then eq_list_with eq xs ys else Some False)"

fun eq_items_with ::
  "(pyval \<Rightarrow> pyval \<Rightarrow> bool option) \<Rightarrow> (string \<times> pyval) list \<Rightarrow> (string \<times> pyval) list \<Rightarrow> bool option" where
  "eq_items_with eq [] e = Some True"
| "eq_items_with eq ((k, v) # d) e =
     (case map_of e k of
        None \<Rightarrow> Some False
      | Some w \<Rightarrow>
          (case eq v w of
             None \<Rightarrow> None
           | Some same \<Rightarrow> if same then eq_items_with eq d e else Some False))"

fun eq_obj_with :: "(pyval \<Rightarrow> pyval \<Rightarrow> bool option) \<Rightarrow> pyobj \<Rightarrow> pyobj \<Rightarrow> bool option" where
  "eq_obj_with eq (OList xs) (OList ys) = eq_list_with eq xs ys"
| "eq_obj_with eq (ODict d) (ODict e) =
     (if length d = length e then eq_items_with eq d e else Some False)"
| "eq_obj_with eq (OList xs) (ODict e) = Some False"
| "eq_obj_with eq (ODict d) (OList ys) = Some False"

definition eq_step :: "(pyobj \<Rightarrow> pyobj \<Rightarrow> bool option) \<Rightarrow> heap \<Rightarrow> pyval \<Rightarrow> pyval \<Rightarrow> bool option" where
  "eq_step eq_obj h x y =
     (case ref_of x of
        None \<Rightarrow>
          (case ref_of y of
             None \<Rightarrow> Some (py_eq (scalar_json x) (scalar_json y))
           | Some b \<Rightarrow> Some False)
      | Some a \<Rightarrow>
          (case ref_of y of
             None \<Rightarrow> Some False
           | Some b \<Rightarrow>
               if a = b then Some True
               else (case heap_get h a of
                  None \<Rightarrow> None
                | Some oa \<Rightarrow>
                    (case heap_get h b of None \<Rightarrow> None | Some ob \<Rightarrow> eq_obj oa ob))))"

primrec eq_h :: "nat \<Rightarrow> heap \<Rightarrow> pyval \<Rightarrow> pyval \<Rightarrow> bool option" where
  "eq_h 0 h x y = eq_step (\<lambda>oa ob. None) h x y"
| "eq_h (Suc n) h x y = eq_step (eq_obj_with (eq_h n h)) h x y"

text \<open>\<^verbatim>\<open>item in existing_items\<close>, on the elements the list holds.\<close>

fun in_h :: "nat \<Rightarrow> heap \<Rightarrow> pyval \<Rightarrow> pyval list \<Rightarrow> bool option" where
  "in_h n h item [] = Some False"
| "in_h n h item (x # xs) =
     (case eq_h n h x item of
        None \<Rightarrow> None
      | Some same \<Rightarrow> if same then Some True else in_h n h item xs)"

text \<open>
  The inner loop on the list object at address \<open>a\<close>: \<^verbatim>\<open>existing_items.append(item)\<close>
  writes to that object.
\<close>

fun extend_h :: "nat \<Rightarrow> heap \<Rightarrow> addr \<Rightarrow> pyval list \<Rightarrow> heap option" where
  "extend_h n h a [] = Some h"
| "extend_h n h a (item # rest) =
     (case heap_get h a of
        Some (OList existing_items) \<Rightarrow>
          (case in_h n h item existing_items of
             None \<Rightarrow> None
           | Some present \<Rightarrow>
               extend_h n (if \<not> present then h[a := OList (existing_items @ [item])] else h)
                 a rest)
      | _ \<Rightarrow> None)"

text \<open>\<^verbatim>\<open>result[key] = v\<close> on the dict object at address \<open>r\<close>.\<close>

definition set_item :: "heap \<Rightarrow> addr \<Rightarrow> string \<Rightarrow> pyval \<Rightarrow> heap" where
  "set_item h r key v =
     (case heap_get h r of
        Some (ODict d) \<Rightarrow> h[r := ODict (AList.update key v d)]
      | _ \<Rightarrow> h)"

text \<open>
  \<^verbatim>\<open>deep_merge_dict(base, updates)\<close> on addresses: the new store and the address of
  the dict returned. \<open>merge_objs\<close> is the branch of the loop body taken when both
  values are objects, at the addresses \<open>a\<close> and \<open>b\<close>; \<open>merge_loop\<close> is the loop over the
  items of \<open>updates\<close> with \<open>result\<close> at address \<open>r\<close>. The recursive call is the
  parameter \<open>rec\<close>.
\<close>

fun merge_objs ::
  "(heap \<Rightarrow> addr \<Rightarrow> addr \<Rightarrow> (heap \<times> addr) option) \<Rightarrow> nat \<Rightarrow> heap \<Rightarrow> addr \<Rightarrow> string \<Rightarrow> pyval
     \<Rightarrow> addr \<Rightarrow> addr \<Rightarrow> pyobj \<Rightarrow> pyobj \<Rightarrow> heap option" where
  "merge_objs rec n h r key value a b (ODict d) (ODict u) =
     (case rec h a b of
        None \<Rightarrow> None
      | Some (h', m) \<Rightarrow> Some (set_item h' r key (VRef m)))"
| "merge_objs rec n h r key value a b (OList existing_items) (OList new_items) =
     (case extend_h n h a new_items of
        None \<Rightarrow> None
      | Some h' \<Rightarrow> Some (set_item h' r key (VRef a)))"
| "merge_objs rec n h r key value a b (ODict d) (OList new_items) = Some (set_item h r key value)"
| "merge_objs rec n h r key value a b (OList existing_items) (ODict u) =
     Some (set_item h r key value)"

definition merge_item ::
  "(heap \<Rightarrow> addr \<Rightarrow> addr \<Rightarrow> (heap \<times> addr) option) \<Rightarrow> nat \<Rightarrow> heap \<Rightarrow> addr \<Rightarrow> string \<Rightarrow> pyval
     \<Rightarrow> heap option" where
  "merge_item rec n h r key value =
     (case heap_get h r of
        Some (ODict result) \<Rightarrow>
          (case map_of result key of
             None \<Rightarrow> Some (set_item h r key value)
           | Some cur \<Rightarrow>
               (case ref_of cur of
                  None \<Rightarrow> Some (set_item h r key value)
                | Some a \<Rightarrow>
                    (case ref_of value of
                       None \<Rightarrow> Some (set_item h r key value)
                     | Some b \<Rightarrow>
                         (case heap_get h a of
                            None \<Rightarrow> None
                          | Some oa \<Rightarrow>
                              (case heap_get h b of
                                 None \<Rightarrow> None
                               | Some ob \<Rightarrow> merge_objs rec n h r key value a b oa ob)))))
      | _ \<Rightarrow> None)"

fun merge_loop ::
  "(heap \<Rightarrow> addr \<Rightarrow> addr \<Rightarrow> (heap \<times> addr) option) \<Rightarrow> nat \<Rightarrow> heap \<Rightarrow> addr
     \<Rightarrow> (string \<times> pyval) list \<Rightarrow> (heap \<times> addr) option" where
  "merge_loop rec n h r [] = Some (h, r)"
| "merge_loop rec n h r ((key, value) # rest) =
     (case merge_item rec n h r key value of
        None \<Rightarrow> None
      | Some h' \<Rightarrow> merge_loop rec n h' r rest)"

primrec deep_merge_dict_h :: "nat \<Rightarrow> heap \<Rightarrow> addr \<Rightarrow> addr \<Rightarrow> (heap \<times> addr) option" where
  "deep_merge_dict_h 0 h base updates = None"
| "deep_merge_dict_h (Suc n) h base updates =
     (case heap_get h base of
        Some (ODict b) \<Rightarrow>
          (case heap_get h updates of
             Some (ODict u) \<Rightarrow> merge_loop (deep_merge_dict_h n) n (h @ [ODict b]) (length h) u
           | _ \<Rightarrow> None)
      | _ \<Rightarrow> None)"

section \<open>Example data\<close>

text \<open>
  Concrete documents, a disk holding the project \<open>demo1\<close> and a table standing for
  the JSON library on the texts that disk holds; the examples below run on them. The
  sorted serialisation of the example tells \<^verbatim>\<open>None\<close> from every other value, and its
  \<^verbatim>\<open>strip\<close> strips the whitespace of ASCII, which is all the examples need of them.
\<close>

definition demo_current :: dict where
  "demo_current =
     [(''theme'', JDict [(''colors'', JDict [])]),
      (''features'', JList [JStr ''login'']),
      (''project_name'', JStr ''demo1'')]"

definition demo_update :: dict where
  "demo_update =
     [(''theme'', JDict [(''fonts'', JDict [])]),
      (''features'', JList [JStr ''login'', JStr ''pay'', JStr ''pay'']),
      (''project_name'', JList []),
      (''pages'', JNull)]"

definition is_space :: "char \<Rightarrow> bool" where
  "is_space c =
     (c \<in> set [CHR '' '', CHR 0x09, CHR 0x0A, CHR 0x0B, CHR 0x0C, CHR 0x0D,
                CHR 0x1C, CHR 0x1D, CHR 0x1E, CHR 0x1F])"

definition ascii_strip :: "string \<Rightarrow> string" where
  "ascii_strip s = rev (dropWhile is_space (rev (dropWhile is_space s)))"

definition demo_texts :: "(string \<times> json) list" where
  "demo_texts =
     [(''{}'', JDict []),
      (''{\"features\": [\"login\"]}'', JDict [(''features'', JList [JStr ''login''])]),
      (''{\"features\": []}'', JDict [(''features'', JList [])]),
      (''{\"project_name\": \"demo1\", \"version\": 7}'',
         JDict [(''project_name'', JStr ''demo1''), (''version'', JInt 7)]),
      (''{\"projects\": {\"demo1\": {}}}'',
         JDict [(''projects'', JDict [(''demo1'', JDict [])])])]"

definition demo_codec :: codec where
  "demo_codec =
     \<lparr>loads = map_of demo_texts,
      dumps = (\<lambda>j. case find (\<lambda>(t, v). v = j) demo_texts of Some (t, v) \<Rightarrow> t | None \<Rightarrow> ''null''),
      dumps_sorted = (\<lambda>j. if j = JNull then ''null'' else ''{...}''),
      str_strip = ascii_strip\<rparr>"

definition demo_disk :: disk where
  "demo_disk =
     \<lparr>dirs = (\<lambda>p. p = ''demo1'' \<or> p = ''demo2''),
      files = map_of
        [(ProjectFile ''demo1'' ''requirement.js'', ''{\"features\": []}''),
         (ProjectFile ''demo1'' ''ddd.js'', ''{}''),
         (ProjectFile ''demo1'' ''frontend_data.js'', ''{}''),
         (ProjectFile ''demo1'' ''technical_architecture.js'', ''{}''),
         (ProjectFile ''demo1'' ''summary.md'', ''# demo1''),
         (CURRENT_PROJECT_FILE, ''{\"project_name\": \"demo1\", \"version\": 7}''),
         (REGISTRY_FILE, ''{\"projects\": {\"demo1\": {}}}'')]\<rparr>"

definition demo_clock :: clock where
  "demo_clock = \<lparr>now_iso = ''2025-01-01T00:00:00'', now_ms = 1735689600000\<rparr>"

definition demo_send_ok :: "client \<Rightarrow> bool" where
  "demo_send_ok c = (c \<noteq> 2)"

definition demo_manager :: bm_state where
  "demo_manager =
     \<lparr>connected_frontends = [1, 2, 3], bm_project_data = initial_project_state,
      last_known_version = 0, attempted = [], delivered = []\<rparr>"

definition demo_event :: json where
  "demo_event = JDict [(''type'', JStr ''files_updated'')]"

definition demo_world :: world where
  "demo_world =
     (initial_world demo_disk)
       \<lparr>current_project_data :=
          initial_project_state
            \<lparr>st_project_name := ''demo1'',
             st_requirements := JDict [(''features'', JList [JStr ''login''])],
             st_version := 2, st_last_updated := ''2024-12-31T23:59:59'',
             st_last_command := ''update_project_files''\<rparr>,
        state_version := 2, manager := demo_manager\<rparr>"

definition demo_world_other :: world where
  "demo_world_other =
     (initial_world demo_disk)
       \<lparr>current_project_data :=
          initial_project_state
            \<lparr>st_project_name := ''demo2'', st_version := 2,
             st_last_updated := ''2024-12-31T23:59:59'',
             st_last_command := ''select_project''\<rparr>,
        state_version := 2, manager := demo_manager\<rparr>"

definition demo_heap :: heap where
  "demo_heap =
     [ODict [(''features'', VRef 1)], OList [VStr ''login''],
      ODict [(''features'', VRef 3)], OList [VStr ''login'', VStr ''pay'']]"

definition demo_heap_after :: heap where
  "demo_heap_after =
     [ODict [(''features'', VRef 1)], OList [VStr ''login'', VStr ''pay''],
      ODict [(''features'', VRef 3)], OList [VStr ''login'', VStr ''pay''],
      ODict [(''features'', VRef 1)]]"

section \<open>Python equality and the sequence union\<close>

lemma py_eq_refl: "wf_json x \<Longrightarrow> py_eq x x"
proof (induction x)
  case (JList xs)
  then have "\<forall>x\<in>set xs. py_eq x x" by (auto simp: list_all_iff)
  then show ?case by (simp add: list_all2_same)
next
  case (JDict d)
  have "\<And>k v. (k, v) \<in> set d \<Longrightarrow> map_of d k = Some v \<and> py_eq v v"
  proof -
    fix k v assume kv: "(k, v) \<in> set d"
    from JDict.prems have dist: "distinct (map fst d)" by simp
    from JDict.prems kv have "wf_json v" by (auto simp: list_all_iff)
    with JDict.IH kv have "py_eq v v" by fastforce
    with dist kv show "map_of d k = Some v \<and> py_eq v v" by simp
  qed
  then show ?case by (auto simp: list_all_iff)
qed (simp_all split: if_splits)

lemma py_eq_trans: "py_eq x y \<Longrightarrow> py_eq y z \<Longrightarrow> py_eq x z"
proof (induction x arbitrary: y z)
  case (JList xs)
  then obtain ys where y: "y = JList ys" by (cases y) (auto split: option.splits)
  with JList.prems obtain zs where z: "z = JList zs" by (cases z) (auto split: option.splits)
  from JList.prems y z have a: "list_all2 py_eq xs ys" and b: "list_all2 py_eq ys zs" by simp_all
  have "list_all2 py_eq xs zs"
    using a b JList.IH
  proof (induction xs ys arbitrary: zs rule: list_all2_induct)
    case Nil then show ?case by simp
  next
    case (Cons x xs y ys)
    then show ?case by (cases zs) (auto)
  qed
  then show ?case using z by simp
next
  case (JDict d)
  then obtain e where y: "y = JDict e" by (cases y) (auto split: option.splits)
  with JDict.prems obtain f where z: "z = JDict f" by (cases z) (auto split: option.splits)
  from JDict.prems y z have len: "length d = length f" by simp
  have "\<And>k v. (k, v) \<in> set d \<Longrightarrow> \<exists>u. map_of f k = Some u \<and> py_eq v u"
  proof -
    fix k v assume kv: "(k, v) \<in> set d"
    with JDict.prems(1) y obtain w where w: "map_of e k = Some w" "py_eq v w"
      by (auto simp: list_all_iff split: option.splits)
    then have "(k, w) \<in> set e" by (simp add: map_of_SomeD)
    with JDict.prems(2) y z obtain u where u: "map_of f k = Some u" "py_eq w u"
      by (auto simp: list_all_iff split: option.splits)
    from JDict.IH kv w(2) u(2) have "py_eq v u" by fastforce
    with u show "\<exists>u. map_of f k = Some u \<and> py_eq v u" by blast
  qed
  then show ?case using z len by (fastforce simp: list_all_iff)
next
  case JNull then show ?case by (cases y; cases z) (auto split: option.splits)
next
  case (JBool b) then show ?case by (cases y; cases z) (auto split: option.splits if_splits)
next
  case (JInt i) then show ?case by (cases y; cases z) (auto split: option.splits if_splits)
next
  case (JFloat r) then show ?case by (cases y; cases z) (auto split: option.splits if_splits)
next
  case (JStr s) then show ?case by (cases y; cases z) (auto split: option.splits if_splits)
qed

lemma py_in_append: "py_in y (xs @ zs) = (py_in y xs \<or> py_in y zs)"
  by (auto simp: py_in_def list_ex_iff)

lemma py_in_Cons: "py_in y (x # xs) = (py_eq x y \<or> py_in y xs)"
  by (auto simp: py_in_def)

lemma py_in_Nil: "\<not> py_in y []"
  by (simp add: py_in_def)

lemma py_in_self: "py_eq y y \<Longrightarrow> y \<in> set xs \<Longrightarrow> py_in y xs"
  by (auto simp: py_in_def list_ex_iff)

lemma extend_unique_prefix: "\<exists>zs. extend_unique xs ys = xs @ zs"
proof (induction ys arbitrary: xs)
  case Nil then show ?case by simp
next
  case (Cons y ys)
  show ?case
  proof (cases "py_in y xs")
    case True with Cons[of xs] show ?thesis by simp
  next
    case False
    from Cons[of "xs @ [y]"] obtain zs where "extend_unique (xs @ [y]) ys = (xs @ [y]) @ zs" by blast
    with False show ?thesis by simp
  qed
qed

lemma py_in_extend_unique_mono: "py_in z xs \<Longrightarrow> py_in z (extend_unique xs ys)"
  using extend_unique_prefix[of xs ys] by (auto simp: py_in_append)

lemma extend_unique_all_in:
  "\<forall>y\<in>set ys. py_eq y y \<Longrightarrow> y \<in> set ys \<Longrightarrow> py_in y (extend_unique xs ys)"
proof (induction ys arbitrary: xs)
  case Nil then show ?case by simp
next
  case (Cons a ys)
  let ?xs' = "if \<not> py_in a xs then xs @ [a] else xs"
  show ?case
  proof (cases "y = a")
    case True
    have "py_in a ?xs'" using Cons.prems(1) by (auto simp: py_in_append py_in_Cons)
    then have "py_in a (extend_unique ?xs' ys)" by (rule py_in_extend_unique_mono)
    with True show ?thesis by simp
  next
    case False
    with Cons.prems have "y \<in> set ys" by simp
    with Cons.IH[of ?xs'] Cons.prems(1) have "py_in y (extend_unique ?xs' ys)" by simp
    then show ?thesis by simp
  qed
qed

lemma extend_unique_absorb: "\<forall>y\<in>set ys. py_in y xs \<Longrightarrow> extend_unique xs ys = xs"
  by (induction ys arbitrary: xs) auto

lemma extend_unique_idem:
  assumes "\<forall>y\<in>set ys. py_eq y y"
  shows "extend_unique (extend_unique xs ys) ys = extend_unique xs ys"
  by (rule extend_unique_absorb) (use assms extend_unique_all_in in blast)

lemma extend_unique_self: "\<forall>y\<in>set ys. py_eq y y \<Longrightarrow> extend_unique ys ys = ys"
  by (rule extend_unique_absorb) (auto intro: py_in_self)

lemma not_already_present_Nil: "not_already_present xs [] = []"
  by (simp add: not_already_present_def)

lemma py_in_skip:
  assumes "py_in y xs"
  shows "py_in z (xs @ y # t) = py_in z (xs @ t)"
proof -
  from assms obtain x where x: "x \<in> set xs" "py_eq x y" by (auto simp: py_in_def list_ex_iff)
  have "py_eq y z \<Longrightarrow> py_in z xs"
    using x py_eq_trans[of x y z] by (auto simp: py_in_def list_ex_iff)
  then show ?thesis by (auto simp: py_in_append py_in_Cons)
qed

lemma not_already_present_Cons:
  "not_already_present xs (y # ys) =
     (if py_in y xs then not_already_present xs ys
      else y # not_already_present (xs @ [y]) ys)"
proof -
  have upt: "[0..<length (y # ys)] = 0 # map Suc [0..<length ys]"
    by (simp add: upt_conv_Cons map_Suc_upt del: upt_Suc)
  have "not_already_present xs (y # ys) =
      (if py_in y xs then [] else [y]) @
      map (\<lambda>i. ys ! i) (filter (\<lambda>i. \<not> py_in (ys ! i) (xs @ y # take i ys)) [0..<length ys])"
    unfolding not_already_present_def upt
    by (simp add: filter_map comp_def py_in_append py_in_Nil del: upt_Suc)
  moreover have "py_in y xs \<Longrightarrow>
      filter (\<lambda>i. \<not> py_in (ys ! i) (xs @ y # take i ys)) [0..<length ys] =
      filter (\<lambda>i. \<not> py_in (ys ! i) (xs @ take i ys)) [0..<length ys]"
    by (simp add: py_in_skip)
  ultimately show ?thesis
    by (simp add: not_already_present_def)
qed

lemma extend_unique_spec: "extend_unique xs ys = xs @ not_already_present xs ys"
  by (induction ys arbitrary: xs) (simp_all add: not_already_present_Nil not_already_present_Cons)

lemma deep_merge_dict_step:
  "deep_merge_dict result ((key, value) # updates) =
     deep_merge_dict
       (case map_of result key of
          None \<Rightarrow> result @ [(key, value)]
        | Some cur \<Rightarrow> AList.update key (merge_value (Some cur) value) result)
       updates"
  by (simp add: merge_value_def split: option.splits json.splits)

lemma map_of_merge_entry:
  "map_of (merge_entry result key value) =
     (map_of result)(key \<mapsto> merge_value (map_of result key) value)"
  by (auto simp: merge_entry_def update_conv merge_value_def map_add_def fun_eq_iff
           split: option.splits)

lemma keys_merge_entry:
  "map fst (merge_entry result key value) =
     (if key \<in> set (map fst result) then map fst result else map fst result @ [key])"
  by (auto simp: merge_entry_def map_of_eq_None_iff update_keys 
           split: option.splits dest: weak_map_of_SomeI)

lemma map_of_deep_merge_dict:
  "distinct (map fst updates) \<Longrightarrow>
   map_of (deep_merge_dict result updates) k =
     (case map_of updates k of
        None \<Rightarrow> map_of result k
      | Some v \<Rightarrow> Some (merge_value (map_of result k) v))"
proof (induction updates arbitrary: result)
  case Nil then show ?case by simp
next
  case (Cons kv updates)
  obtain key val where kv: "kv = (key, val)" by (cases kv)
  from Cons.prems kv have d: "distinct (map fst updates)" and nk: "map_of updates key = None"
    by (auto simp: map_of_eq_None_iff)
  have "deep_merge_dict result (kv # updates) = deep_merge_dict (merge_entry result key val) updates"
    unfolding kv deep_merge_dict_step merge_entry_def ..
  then show ?case
    using Cons.IH[OF d, of "merge_entry result key val"] nk
    by (auto simp: kv map_of_merge_entry split: option.splits)
qed

lemma keys_deep_merge_dict:
  "distinct (map fst updates) \<Longrightarrow>
   map fst (deep_merge_dict result updates) =
     map fst result @ filter (\<lambda>k. k \<notin> set (map fst result)) (map fst updates)"
proof (induction updates arbitrary: result)
  case Nil then show ?case by simp
next
  case (Cons kv updates)
  obtain key val where kv: "kv = (key, val)" by (cases kv)
  from Cons.prems kv have d: "distinct (map fst updates)" and nk: "key \<notin> set (map fst updates)"
    by auto
  have "deep_merge_dict result (kv # updates) = deep_merge_dict (merge_entry result key val) updates"
    unfolding kv deep_merge_dict_step merge_entry_def ..
  moreover have "filter (\<lambda>k. k \<noteq> key \<and> k \<notin> set (map fst result)) (map fst updates)
     = filter (\<lambda>k. k \<notin> set (map fst result)) (map fst updates)"
    using nk by (intro filter_cong) auto
  ultimately show ?case
    using Cons.IH[OF d, of "merge_entry result key val"] nk
    by (auto simp: kv keys_merge_entry)
qed

lemma alist_eqI:
  "distinct (map fst xs) \<Longrightarrow> map fst xs = map fst ys \<Longrightarrow> map_of xs = map_of ys \<Longrightarrow> xs = ys"
proof (induction xs arbitrary: ys)
  case Nil then show ?case by simp
next
  case (Cons p xs)
  then obtain q ys' where ys: "ys = q # ys'" by (cases ys) auto
  obtain k v where p: "p = (k, v)" by (cases p)
  from Cons.prems ys p obtain w where q: "q = (k, w)" by (cases q) auto
  from Cons.prems(3) have "map_of (p # xs) k = map_of ys k" by (rule fun_cong)
  then have vw: "v = w" by (simp add: p q ys)
  have "map_of xs = map_of ys'"
  proof
    fix x
    show "map_of xs x = map_of ys' x"
    proof (cases "x = k")
      case True
      from Cons.prems p ys q have "k \<notin> fst ` set xs" "k \<notin> fst ` set ys'"
        by (auto simp flip: set_map)
      then have "map_of xs k = None" "map_of ys' k = None"
        by (simp_all add: map_of_eq_None_iff)
      with True show ?thesis by simp
    next
      case False
      from Cons.prems(3) have "map_of (p # xs) x = map_of ys x" by (rule fun_cong)
      with False show ?thesis by (simp add: p q ys)
    qed
  qed
  with Cons.IH[of ys'] Cons.prems ys have "xs = ys'" by simp
  with vw p q ys show ?case by simp
qed

lemma deep_merge_dict_Nil: "distinct (map fst u) \<Longrightarrow> deep_merge_dict [] u = u"
proof (rule alist_eqI)
  assume d: "distinct (map fst u)"
  show "distinct (map fst (deep_merge_dict [] u))" using d by (simp add: keys_deep_merge_dict)
  show "map fst (deep_merge_dict [] u) = map fst u" using d by (simp add: keys_deep_merge_dict)
  show "map_of (deep_merge_dict [] u) = map_of u"
    using d by (auto simp: fun_eq_iff map_of_deep_merge_dict merge_value_def split: option.splits)
qed

lemma distinct_deep_merge_dict:
  "distinct (map fst result) \<Longrightarrow> distinct (map fst updates) \<Longrightarrow>
   distinct (map fst (deep_merge_dict result updates))"
  by (auto simp: keys_deep_merge_dict)

lemma wf_json_lookup: "wf_json (JDict d) \<Longrightarrow> map_of d k = Some v \<Longrightarrow> wf_json v"
  by (auto simp: list_all_iff dest!: map_of_SomeD)

lemma wf_json_elems_refl: "wf_json (JList ys) \<Longrightarrow> \<forall>y\<in>set ys. py_eq y y"
  by (auto simp: list_all_iff intro: py_eq_refl)

lemma merge_value_idem:
  assumes wfv: "wf_json v"
    and ih: "\<And>u A. v = JDict u \<Longrightarrow> wf_json (JDict A) \<Longrightarrow>
               deep_merge_dict (deep_merge_dict A u) u = deep_merge_dict A u"
    and wfc: "\<And>x. c = Some x \<Longrightarrow> wf_json x"
  shows "merge_value (Some (merge_value c v)) v = merge_value c v"
proof (cases v)
  case (JDict u)
  from wfv JDict have du: "distinct (map fst u)" by simp
  have self: "deep_merge_dict u u = u"
  proof -
    from ih[OF JDict, of "[]"] have "deep_merge_dict (deep_merge_dict [] u) u = deep_merge_dict [] u"
      by simp
    then show ?thesis by (simp add: deep_merge_dict_Nil du)
  qed
  show ?thesis
  proof (cases c)
    case None
    then show ?thesis using JDict self by (simp add: merge_value_def)
  next
    case (Some x)
    show ?thesis
    proof (cases x)
      case (JDict d)
      with wfc Some have "wf_json (JDict d)" by simp
      with ih[OF \<open>v = JDict u\<close>]
      have "deep_merge_dict (deep_merge_dict d u) u = deep_merge_dict d u"
        by simp
      then show ?thesis using Some JDict \<open>v = JDict u\<close> by (simp add: merge_value_def)
    qed (use Some \<open>v = JDict u\<close> self in \<open>simp_all add: merge_value_def\<close>)
  qed
next
  case (JList ys)
  with wfv have r: "\<forall>y\<in>set ys. py_eq y y" by (simp add: wf_json_elems_refl)
  show ?thesis
  proof (cases c)
    case None
    then show ?thesis using JList r by (simp add: merge_value_def extend_unique_self)
  next
    case (Some x)
    then show ?thesis using JList r
      by (cases x) (simp_all add: merge_value_def extend_unique_self extend_unique_idem)
  qed
qed (cases c; simp add: merge_value_def split: json.splits)+

lemma deep_merge_dict_idem_aux:
  "wf_json v \<Longrightarrow> v = JDict u \<Longrightarrow> wf_json (JDict A) \<Longrightarrow>
   deep_merge_dict (deep_merge_dict A u) u = deep_merge_dict A u"
proof (induction v arbitrary: u A)
  case (JDict d)
  then have u: "u = d" by simp
  from JDict.prems have du: "distinct (map fst d)" by simp
  from JDict.prems have wfA: "wf_json (JDict A)" by simp
  then have dA: "distinct (map fst A)" by simp
  have step: "merge_value (Some (merge_value c w)) w = merge_value c w"
    if kw: "map_of d k = Some w" and wfc: "\<And>x. c = Some x \<Longrightarrow> wf_json x" for k w c
  proof -
    from kw have mem: "(k, w) \<in> set d" by (rule map_of_SomeD)
    from JDict.prems(1) kw have wfw: "wf_json w" by (rule wf_json_lookup)
    have ihw: "\<And>u' A'. w = JDict u' \<Longrightarrow> wf_json (JDict A') \<Longrightarrow>
        deep_merge_dict (deep_merge_dict A' u') u' = deep_merge_dict A' u'"
      using JDict.IH[OF mem, of w] wfw by simp
    from wfw ihw wfc show ?thesis by (rule merge_value_idem)
  qed
  let ?R = "deep_merge_dict A d"
  have dR: "distinct (map fst ?R)" using dA du by (rule distinct_deep_merge_dict)
  have sub: "set (map fst d) \<subseteq> set (map fst ?R)"
    using du by (auto simp: keys_deep_merge_dict)
  have "deep_merge_dict ?R d = ?R"
  proof (rule alist_eqI)
    show "distinct (map fst (deep_merge_dict ?R d))" using dR du by (rule distinct_deep_merge_dict)
    have "filter (\<lambda>k. k \<notin> set (map fst ?R)) (map fst d) = []"
      using sub by (auto simp: filter_empty_conv)
    then show "map fst (deep_merge_dict ?R d) = map fst ?R"
      using keys_deep_merge_dict[OF du, of ?R] by simp
    show "map_of (deep_merge_dict ?R d) = map_of ?R"
    proof
      fix k
      show "map_of (deep_merge_dict ?R d) k = map_of ?R k"
      proof (cases "map_of d k")
        case None
        then show ?thesis by (simp add: map_of_deep_merge_dict[OF du])
      next
        case (Some w)
        have "\<And>x. map_of A k = Some x \<Longrightarrow> wf_json x" using wfA by (rule wf_json_lookup)
        with step[OF Some] show ?thesis
          using Some by (simp add: map_of_deep_merge_dict[OF du])
      qed
    qed
  qed
  with u show ?case by simp
qed simp_all

lemma deep_merge_dict_idem:
  "wf_json (JDict A) \<Longrightarrow> wf_json (JDict B) \<Longrightarrow>
   deep_merge_dict (deep_merge_dict A B) B = deep_merge_dict A B"
  using deep_merge_dict_idem_aux[of "JDict B" B A] by simp

lemma merge_value_other:
  "\<not> (is_dict c \<and> is_dict v) \<Longrightarrow> \<not> (is_list c \<and> is_list v) \<Longrightarrow> merge_value (Some c) v = v"
  by (cases c; cases v) (simp_all add: merge_value_def)

lemma demo_merge:
  "deep_merge_dict demo_current demo_update =
     [(''theme'', JDict [(''colors'', JDict []), (''fonts'', JDict [])]),
      (''features'', JList [JStr ''login'', JStr ''pay'']),
      (''project_name'', JList []),
      (''pages'', JNull)]"
  by (simp add: demo_current_def demo_update_def py_in_def)

lemma demo_md: "endswith ''summary.md'' ''.md''"
  by (simp add: endswith_def)

lemma demo_valid: "''summary.md'' \<in> set VALID_FILE_TYPES" "''requirement.js'' \<in> set VALID_FILE_TYPES"
  by (simp_all add: VALID_FILE_TYPES_def)

lemma demo_project: "project_exists demo_disk ''demo1''"
  by (simp add: project_exists_def demo_disk_def)

lemma demo_summary: "files demo_disk (ProjectFile ''demo1'' ''summary.md'') = Some ''# demo1''"
  by (simp add: demo_disk_def)

section \<open>Merge Engine: what a merge returns\<close>

text \<open>
  Claim C2. For a structured current document \<open>A\<close> and a structured update \<open>B\<close>
  (a Python dict: no key twice), the strategies \<open>merge\<close> and \<open>append\<close> return the
  same document \<open>R\<close>, and for every key \<open>k\<close> of \<open>B\<close>: where both hold a dict,
  \<open>R\<close> holds their recursive merge; where both hold a list, \<open>R\<close> holds the list of
  \<open>A\<close> followed by the elements of the list of \<open>B\<close> that are not already present
  when their turn comes (equal, by Python's \<^verbatim>\<open>==\<close>, to no element of the list of \<open>A\<close>
  and to no earlier element of the list of \<open>B\<close>), in the order of \<open>B\<close>, nothing of
  the list of \<open>A\<close> removed; in every other collision \<open>R\<close> holds the value of \<open>B\<close>;
  a key of \<open>B\<close> alone is added with the value of \<open>B\<close>. Keys that \<open>B\<close> does not
  have keep the value of \<open>A\<close>.
\<close>

theorem merge_strategy_semantics:
  assumes "distinct (map fst B)"
  shows "\<exists>R. apply_strategy ''merge'' (JDict A) B = Inr (JDict R)
           \<and> apply_strategy ''append'' (JDict A) B = Inr (JDict R)
           \<and> (\<forall>k v. map_of B k = Some v \<longrightarrow>
                (\<forall>d u. map_of A k = Some (JDict d) \<and> v = JDict u \<longrightarrow>
                   map_of R k = Some (JDict (deep_merge_dict d u)))
              \<and> (\<forall>xs ys. map_of A k = Some (JList xs) \<and> v = JList ys \<longrightarrow>
                   map_of R k = Some (JList (xs @ not_already_present xs ys)))
              \<and> (\<forall>c. map_of A k = Some c \<and> \<not> (is_dict c \<and> is_dict v)
                        \<and> \<not> (is_list c \<and> is_list v) \<longrightarrow> map_of R k = Some v)
              \<and> (map_of A k = None \<longrightarrow> map_of R k = Some v))
           \<and> (\<forall>k. map_of B k = None \<longrightarrow> map_of R k = map_of A k)"
proof (intro exI[of _ "deep_merge_dict A B"] conjI allI impI)
  show "apply_strategy ''merge'' (JDict A) B = Inr (JDict (deep_merge_dict A B))"
    by (simp add: apply_strategy_def)
  show "apply_strategy ''append'' (JDict A) B = Inr (JDict (deep_merge_dict A B))"
    by (simp add: apply_strategy_def)
next
  fix k v d u
  assume "map_of B k = Some v" "map_of A k = Some (JDict d) \<and> v = JDict u"
  then show "map_of (deep_merge_dict A B) k = Some (JDict (deep_merge_dict d u))"
    by (simp add: map_of_deep_merge_dict[OF assms] merge_value_def)
next
  fix k v xs ys
  assume "map_of B k = Some v" "map_of A k = Some (JList xs) \<and> v = JList ys"
  then show "map_of (deep_merge_dict A B) k = Some (JList (xs @ not_already_present xs ys))"
    by (simp add: map_of_deep_merge_dict[OF assms] merge_value_def extend_unique_spec)
next
  fix k v c
  assume "map_of B k = Some v"
    "map_of A k = Some c \<and> \<not> (is_dict c \<and> is_dict v) \<and> \<not> (is_list c \<and> is_list v)"
  then show "map_of (deep_merge_dict A B) k = Some v"
    by (simp add: map_of_deep_merge_dict[OF assms] merge_value_other)
next
  fix k v
  assume "map_of B k = Some v" "map_of A k = None"
  then show "map_of (deep_merge_dict A B) k = Some v"
    by (simp add: map_of_deep_merge_dict[OF assms] merge_value_def)
next
  fix k
  assume "map_of B k = None"
  then show "map_of (deep_merge_dict A B) k = map_of A k"
    by (simp add: map_of_deep_merge_dict[OF assms])
qed

theorem merge_strategy_semantics_witness:
  "distinct (map fst demo_update)
   \<and> apply_strategy ''merge'' (JDict demo_current) demo_update
       = apply_strategy ''append'' (JDict demo_current) demo_update
   \<and> (\<exists>R. apply_strategy ''merge'' (JDict demo_current) demo_update = Inr (JDict R)
        \<and> map_of R ''theme'' = Some (JDict (deep_merge_dict [(''colors'', JDict [])] [(''fonts'', JDict [])]))
        \<and> map_of R ''features'' = Some (JList ([JStr ''login''] @ [JStr ''pay'']))
        \<and> map_of R ''project_name'' = Some (JList [])
        \<and> map_of R ''pages'' = Some JNull)"
proof -
  have d: "distinct (map fst demo_update)" by (simp add: demo_update_def)
  have nap: "not_already_present [JStr ''login''] [JStr ''login'', JStr ''pay'', JStr ''pay'']
      = [JStr ''pay'']"
    by (simp add: not_already_present_def py_in_def upt_rec)
  from merge_strategy_semantics[OF d, of demo_current]
  obtain R where R: "apply_strategy ''merge'' (JDict demo_current) demo_update = Inr (JDict R)"
    "apply_strategy ''append'' (JDict demo_current) demo_update = Inr (JDict R)"
    and dicts: "\<And>k v d u. map_of demo_update k = Some v \<Longrightarrow>
        map_of demo_current k = Some (JDict d) \<and> v = JDict u \<Longrightarrow>
        map_of R k = Some (JDict (deep_merge_dict d u))"
    and lists: "\<And>k v xs ys. map_of demo_update k = Some v \<Longrightarrow>
        map_of demo_current k = Some (JList xs) \<and> v = JList ys \<Longrightarrow>
        map_of R k = Some (JList (xs @ not_already_present xs ys))"
    and other: "\<And>k v c. map_of demo_update k = Some v \<Longrightarrow>
        map_of demo_current k = Some c \<and> \<not> (is_dict c \<and> is_dict v) \<and> \<not> (is_list c \<and> is_list v) \<Longrightarrow>
        map_of R k = Some v"
    and new: "\<And>k v. map_of demo_update k = Some v \<Longrightarrow> map_of demo_current k = None \<Longrightarrow>
        map_of R k = Some v"
    by blast
  have 1: "map_of R ''theme'' = Some (JDict (deep_merge_dict [(''colors'', JDict [])] [(''fonts'', JDict [])]))"
    by (rule dicts) (simp_all add: demo_update_def demo_current_def)
  have 2: "map_of R ''features'' = Some (JList ([JStr ''login''] @ [JStr ''pay'']))"
    using lists[of "''features''" "JList [JStr ''login'', JStr ''pay'', JStr ''pay'']"
        "[JStr ''login'']" "[JStr ''login'', JStr ''pay'', JStr ''pay'']"]
    by (simp add: demo_update_def demo_current_def nap)
  have 3: "map_of R ''project_name'' = Some (JList [])"
    by (rule other[of _ _ "JStr ''demo1''"]) (simp_all add: demo_update_def demo_current_def)
  have 4: "map_of R ''pages'' = Some JNull"
    by (rule new) (simp_all add: demo_update_def demo_current_def)
  from d R 1 2 3 4 show ?thesis by auto
qed

text \<open>
  Claim C3. Merging is idempotent: for Python dicts \<open>A\<close> and \<open>B\<close> (no key twice, at
  any depth), merging \<open>B\<close> into the result of merging \<open>B\<close> into \<open>A\<close> returns that
  result again, through \<^verbatim>\<open>deep_merge_dict\<close> and through the strategy \<open>merge\<close>.
\<close>

theorem merge_idempotent:
  assumes "wf_json (JDict A)" and "wf_json (JDict B)"
  shows "deep_merge_dict (deep_merge_dict A B) B = deep_merge_dict A B
       \<and> (\<exists>R. apply_strategy ''merge'' (JDict A) B = Inr R
              \<and> apply_strategy ''merge'' R B = Inr R)"
  using deep_merge_dict_idem[OF assms] by (simp add: apply_strategy_def)

theorem merge_idempotent_witness:
  "wf_json (JDict demo_current) \<and> wf_json (JDict demo_update)
   \<and> deep_merge_dict (deep_merge_dict demo_current demo_update) demo_update
       = [(''theme'', JDict [(''colors'', JDict []), (''fonts'', JDict [])]),
          (''features'', JList [JStr ''login'', JStr ''pay'']),
          (''project_name'', JList []),
          (''pages'', JNull)]"
proof -
  have a: "wf_json (JDict demo_current)" by (simp add: demo_current_def)
  have b: "wf_json (JDict demo_update)" by (simp add: demo_update_def)
  from merge_idempotent[OF a b] a b show ?thesis by (simp add: demo_merge)
qed

section \<open>Updating a document\<close>

text \<open>
  Claim C10. For a free-text (\<^verbatim>\<open>.md\<close>) document of an existing project and a string
  payload, every strategy name, \<open>merge\<close> and \<open>append\<close> among them, does what
  \<open>replace\<close> does: the file holds the payload verbatim afterwards and the call
  returns the payload.
\<close>

theorem markdown_update_is_replace:
  assumes "file_type \<in> set VALID_FILE_TYPES" and "endswith file_type ''.md''"
    and "project_exists fs project_name"
    and "files fs (ProjectFile project_name file_type) = Some old"
  shows "update_json_file cd fs project_name file_type (JStr s) merge_strategy
           = (Inr (JStr s), write_text_file fs (ProjectFile project_name file_type) s)
       \<and> update_json_file cd fs project_name file_type (JStr s) merge_strategy
           = update_json_file cd fs project_name file_type (JStr s) ''replace''
       \<and> files (snd (update_json_file cd fs project_name file_type (JStr s) merge_strategy))
           (ProjectFile project_name file_type) = Some s"
  using assms by (simp add: update_json_file_def write_text_file_def)

theorem markdown_update_is_replace_witness:
  "''summary.md'' \<in> set VALID_FILE_TYPES \<and> endswith ''summary.md'' ''.md''
   \<and> project_exists demo_disk ''demo1''
   \<and> files demo_disk (ProjectFile ''demo1'' ''summary.md'') = Some ''# demo1''
   \<and> fst (update_json_file demo_codec demo_disk ''demo1'' ''summary.md'' (JStr ''notes'') ''merge'')
       = Inr (JStr ''notes'')
   \<and> update_json_file demo_codec demo_disk ''demo1'' ''summary.md'' (JStr ''notes'') ''append''
       = update_json_file demo_codec demo_disk ''demo1'' ''summary.md'' (JStr ''notes'') ''replace''
   \<and> files (snd (update_json_file demo_codec demo_disk ''demo1'' ''summary.md'' (JStr ''notes'') ''merge''))
           (ProjectFile ''demo1'' ''summary.md'') = Some ''notes''"
proof -
  note m = markdown_update_is_replace[OF demo_valid(1) demo_md demo_project demo_summary,
      of demo_codec "''notes''" "''merge''"]
  note a = markdown_update_is_replace[OF demo_valid(1) demo_md demo_project demo_summary,
      of demo_codec "''notes''" "''append''"]
  from m have 1: "fst (update_json_file demo_codec demo_disk ''demo1'' ''summary.md''
      (JStr ''notes'') ''merge'') = Inr (JStr ''notes'')"
    by simp
  from a have 2: "update_json_file demo_codec demo_disk ''demo1'' ''summary.md'' (JStr ''notes'') ''append''
       = update_json_file demo_codec demo_disk ''demo1'' ''summary.md'' (JStr ''notes'') ''replace''"
    by blast
  from m have 3: "files (snd (update_json_file demo_codec demo_disk ''demo1'' ''summary.md''
      (JStr ''notes'') ''merge'')) (ProjectFile ''demo1'' ''summary.md'') = Some ''notes''"
    by blast
  from 1 2 3 demo_valid(1) demo_md demo_project demo_summary show ?thesis by blast
qed

text \<open>
  Claim C7, as stated, asks for a validation error on an unknown strategy name
  whatever the document. On a free-text document the strategy is never looked at:
  the call below, with the strategy \<open>bogus\<close>, succeeds and rewrites the file.
\<close>

theorem unknown_strategy_markdown_counterexample:
  "''bogus'' \<notin> set [''replace'', ''merge'', ''append'']
   \<and> update_json_file demo_codec demo_disk ''demo1'' ''summary.md'' (JStr ''notes'') ''bogus''
       = (Inr (JStr ''notes''),
          write_text_file demo_disk (ProjectFile ''demo1'' ''summary.md'') ''notes'')
   \<and> files (write_text_file demo_disk (ProjectFile ''demo1'' ''summary.md'') ''notes'')
        (ProjectFile ''demo1'' ''summary.md'') \<noteq> files demo_disk (ProjectFile ''demo1'' ''summary.md'')"
  by (simp add: update_json_file_def demo_valid demo_md demo_project demo_summary
      write_text_file_def)

text \<open>
  Claim C7, amended. On a structured (\<^verbatim>\<open>.js\<close>) document key an unknown strategy name
  always yields an error and leaves the disk as it was; the error is the ValueError
  when the project and the file exist. A payload whose kind disagrees with the
  document (no str for \<^verbatim>\<open>.md\<close>, no dict for \<^verbatim>\<open>.js\<close>) yields the ValueError and
  writes nothing. On a free-text document a string payload is written whatever the
  strategy name: the call returns the payload and the file holds it afterwards.
\<close>

theorem update_validation_errors:
  "(merge_strategy \<notin> set [''replace'', ''merge'', ''append'']
      \<and> \<not> endswith file_type ''.md'' \<longrightarrow>
        (\<exists>e. update_json_file cd fs project_name file_type update_data merge_strategy = (Inl e, fs))
      \<and> (file_type \<in> set VALID_FILE_TYPES \<and> project_exists fs project_name
           \<and> files fs (ProjectFile project_name file_type) \<noteq> None \<longrightarrow>
          update_json_file cd fs project_name file_type update_data merge_strategy
            = (Inl ValueError, fs)))
   \<and> (file_type \<in> set VALID_FILE_TYPES \<and> project_exists fs project_name
        \<and> files fs (ProjectFile project_name file_type) \<noteq> None
        \<and> (if endswith file_type ''.md'' then \<not> is_str update_data else \<not> is_dict update_data) \<longrightarrow>
        update_json_file cd fs project_name file_type update_data merge_strategy
          = (Inl ValueError, fs))
   \<and> (file_type \<in> set VALID_FILE_TYPES \<and> project_exists fs project_name
        \<and> files fs (ProjectFile project_name file_type) \<noteq> None
        \<and> endswith file_type ''.md'' \<and> update_data = JStr s \<longrightarrow>
        update_json_file cd fs project_name file_type update_data merge_strategy
          = (Inr (JStr s), write_text_file fs (ProjectFile project_name file_type) s)
        \<and> files (snd (update_json_file cd fs project_name file_type update_data merge_strategy))
            (ProjectFile project_name file_type) = Some s)"
  by (cases update_data)
     (auto simp: update_json_file_def apply_strategy_def write_text_file_def
        split: option.splits sum.splits)

theorem update_validation_errors_witness:
  "''bogus'' \<notin> set [''replace'', ''merge'', ''append''] \<and> \<not> endswith ''requirement.js'' ''.md''
   \<and> ''requirement.js'' \<in> set VALID_FILE_TYPES \<and> ''summary.md'' \<in> set VALID_FILE_TYPES
   \<and> endswith ''summary.md'' ''.md''
   \<and> project_exists demo_disk ''demo1''
   \<and> files demo_disk (ProjectFile ''demo1'' ''requirement.js'') \<noteq> None
   \<and> files demo_disk (ProjectFile ''demo1'' ''summary.md'') \<noteq> None
   \<and> \<not> is_str (JDict []) \<and> \<not> is_dict (JStr ''x'') \<and> is_str (JStr ''notes'')
   \<and> update_json_file demo_codec demo_disk ''demo1'' ''requirement.js''
        (JDict [(''features'', JList [JStr ''login''])]) ''bogus'' = (Inl ValueError, demo_disk)
   \<and> update_json_file demo_codec demo_disk ''demo1'' ''summary.md'' (JDict []) ''replace''
        = (Inl ValueError, demo_disk)
   \<and> update_json_file demo_codec demo_disk ''demo1'' ''requirement.js'' (JStr ''x'') ''merge''
        = (Inl ValueError, demo_disk)
   \<and> update_json_file demo_codec demo_disk ''demo1'' ''summary.md'' (JStr ''notes'') ''bogus''
        = (Inr (JStr ''notes''),
           write_text_file demo_disk (ProjectFile ''demo1'' ''summary.md'') ''notes'')
   \<and> files (snd (update_json_file demo_codec demo_disk ''demo1'' ''summary.md'' (JStr ''notes'')
          ''bogus'')) (ProjectFile ''demo1'' ''summary.md'') = Some ''notes''"
proof -
  have js: "\<not> endswith ''requirement.js'' ''.md''" by (simp add: endswith_def)
  have req: "files demo_disk (ProjectFile ''demo1'' ''requirement.js'') \<noteq> None"
    by (simp add: demo_disk_def)
  have sm: "files demo_disk (ProjectFile ''demo1'' ''summary.md'') \<noteq> None"
    by (simp add: demo_disk_def)
  note a = update_validation_errors[of "''bogus''" "''requirement.js''" demo_codec demo_disk
      "''demo1''" "JDict [(''features'', JList [JStr ''login''])]"]
  note b = update_validation_errors[of "''replace''" "''summary.md''" demo_codec demo_disk
      "''demo1''" "JDict []"]
  note c = update_validation_errors[of "''merge''" "''requirement.js''" demo_codec demo_disk
      "''demo1''" "JStr ''x''"]
  note d = update_validation_errors[of "''bogus''" "''summary.md''" demo_codec demo_disk
      "''demo1''" "JStr ''notes''" "''notes''"]
  have 1: "update_json_file demo_codec demo_disk ''demo1'' ''requirement.js''
        (JDict [(''features'', JList [JStr ''login''])]) ''bogus'' = (Inl ValueError, demo_disk)"
    using a js req demo_valid demo_project by simp
  have 2: "update_json_file demo_codec demo_disk ''demo1'' ''summary.md'' (JDict []) ''replace''
        = (Inl ValueError, demo_disk)"
    using b sm demo_valid demo_project demo_md by simp
  have 3: "update_json_file demo_codec demo_disk ''demo1'' ''requirement.js'' (JStr ''x'') ''merge''
        = (Inl ValueError, demo_disk)"
    using c js req demo_valid demo_project by simp
  have 4: "update_json_file demo_codec demo_disk ''demo1'' ''summary.md'' (JStr ''notes'') ''bogus''
        = (Inr (JStr ''notes''),
           write_text_file demo_disk (ProjectFile ''demo1'' ''summary.md'') ''notes'')"
    using d sm demo_valid demo_project demo_md by simp
  have 5: "files (snd (update_json_file demo_codec demo_disk ''demo1'' ''summary.md'' (JStr ''notes'')
          ''bogus'')) (ProjectFile ''demo1'' ''summary.md'') = Some ''notes''"
    unfolding 4 by (simp add: write_text_file_def)
  have k: "\<not> is_str (JDict [])" "\<not> is_dict (JStr ''x'')" "is_str (JStr ''notes'')"
    "''bogus'' \<notin> set [''replace'', ''merge'', ''append'']"
    by simp_all
  show ?thesis
    by (intro conjI k js demo_valid demo_md demo_project req sm 1 2 3 4 5)
qed

section \<open>Subscriber Hub: broadcast and registration\<close>

lemma broadcast_result: "fst (broadcast_to_frontends send_ok message b) = Inr ()"
  by (simp add: broadcast_to_frontends_def gather_def Let_def)

lemma broadcast_manager:
  "snd (broadcast_to_frontends send_ok message b) =
     b\<lparr>attempted := attempted b @ map (\<lambda>c. (c, message)) (connected_frontends b),
       delivered := delivered b @
          map (\<lambda>c. (c, message)) (filter send_ok (connected_frontends b))\<rparr>"
  by (simp add: broadcast_to_frontends_def gather_def Let_def)

lemma broadcast_connected:
  "connected_frontends (snd (broadcast_to_frontends send_ok message b)) = connected_frontends b"
  by (simp add: broadcast_manager)

lemma broadcast_last_known:
  "last_known_version (snd (broadcast_to_frontends send_ok message b)) = last_known_version b"
  by (simp add: broadcast_manager)

text \<open>
  Claim C5. A broadcast never raises to its caller; every registered subscriber whose
  send succeeds receives the event, whatever happens to the sends to the others; the
  messages delivered are exactly those; and with no subscriber registered the
  broadcast changes nothing and returns normally.
\<close>

theorem broadcast_isolates_failures:
  "fst (broadcast_to_frontends send_ok message b) = Inr ()
   \<and> (\<forall>c\<in>set (connected_frontends b). send_ok c \<longrightarrow>
         (c, message) \<in> set (delivered (snd (broadcast_to_frontends send_ok message b))))
   \<and> delivered (snd (broadcast_to_frontends send_ok message b)) =
        delivered b @ map (\<lambda>c. (c, message)) (filter send_ok (connected_frontends b))
   \<and> (connected_frontends b = [] \<longrightarrow>
         broadcast_to_frontends send_ok message b = (Inr (), b))"
proof (intro conjI)
  show "connected_frontends b = [] \<longrightarrow> broadcast_to_frontends send_ok message b = (Inr (), b)"
    by (simp add: broadcast_to_frontends_def)
qed (auto simp: broadcast_result broadcast_manager)

theorem broadcast_isolates_failures_witness:
  "1 \<in> set (connected_frontends demo_manager) \<and> demo_send_ok 1
   \<and> 2 \<in> set (connected_frontends demo_manager) \<and> \<not> demo_send_ok 2
   \<and> 3 \<in> set (connected_frontends demo_manager) \<and> demo_send_ok 3
   \<and> fst (broadcast_to_frontends demo_send_ok demo_event demo_manager) = Inr ()
   \<and> (1, demo_event) \<in> set (delivered (snd (broadcast_to_frontends demo_send_ok demo_event demo_manager)))
   \<and> (3, demo_event) \<in> set (delivered (snd (broadcast_to_frontends demo_send_ok demo_event demo_manager)))
   \<and> connected_frontends (demo_manager\<lparr>connected_frontends := []\<rparr>) = []
   \<and> broadcast_to_frontends demo_send_ok demo_event (demo_manager\<lparr>connected_frontends := []\<rparr>)
        = (Inr (), demo_manager\<lparr>connected_frontends := []\<rparr>)"
proof -
  note t = broadcast_isolates_failures[of demo_send_ok demo_event demo_manager]
  note e = broadcast_isolates_failures[of demo_send_ok demo_event
      "demo_manager\<lparr>connected_frontends := []\<rparr>"]
  have m: "1 \<in> set (connected_frontends demo_manager)" "2 \<in> set (connected_frontends demo_manager)"
    "3 \<in> set (connected_frontends demo_manager)"
    by (simp_all add: demo_manager_def)
  have s: "demo_send_ok 1" "\<not> demo_send_ok 2" "demo_send_ok 3"
    by (simp_all add: demo_send_ok_def)
  from t m(1) s(1) have 1: "(1, demo_event) \<in> set (delivered (snd (broadcast_to_frontends demo_send_ok demo_event demo_manager)))"
    by blast
  from t m(3) s(3) have 3: "(3, demo_event) \<in> set (delivered (snd (broadcast_to_frontends demo_send_ok demo_event demo_manager)))"
    by blast
  from t have r: "fst (broadcast_to_frontends demo_send_ok demo_event demo_manager) = Inr ()"
    by blast
  have c: "connected_frontends (demo_manager\<lparr>connected_frontends := []\<rparr>) = []" by simp
  from e c have z: "broadcast_to_frontends demo_send_ok demo_event (demo_manager\<lparr>connected_frontends := []\<rparr>)
        = (Inr (), demo_manager\<lparr>connected_frontends := []\<rparr>)"
    by blast
  from m s r 1 3 c z show ?thesis by blast
qed

text \<open>
  Claim C8, as stated, has a failed send and a failed heartbeat probe remove the
  subscriber from the registered set. Neither does: after the broadcast below
  subscriber 2, whose send failed, is still registered, and so it is after its
  heartbeat ended on a failed ping.
\<close>

theorem failed_send_keeps_subscriber_counterexample:
  "2 \<in> set (connected_frontends demo_manager) \<and> \<not> demo_send_ok 2
   \<and> 2 \<in> set (connected_frontends (snd (broadcast_to_frontends demo_send_ok demo_event demo_manager)))
   \<and> keep_alive [True, False] 2 demo_manager = (2, True, demo_manager)
   \<and> 2 \<in> set (connected_frontends (snd (snd (keep_alive [True, False] 2 demo_manager))))"
  by (simp add: broadcast_connected demo_manager_def demo_send_ok_def)

lemma keep_alive_state: "snd (snd (keep_alive pings c b)) = b"
  by (induction pings) (auto split: prod.splits)

lemma keep_alive_failed:
  "c \<in> set (connected_frontends b) \<Longrightarrow> keep_alive (replicate n True @ False # rest) c b = (Suc n, True, b)"
  by (induction n) auto

text \<open>
  Claim C8, amended. A broadcast leaves the registered set as it was and calls
  \<^verbatim>\<open>send\<close> exactly once for each registered subscriber, whether that send fails or not
  (no retry: a subscriber whose send fails gets nothing, one whose send succeeds gets
  the event once). A heartbeat leaves the state as it was; a failed ping ends the
  heartbeat loop of that subscriber. A subscriber leaves the set when its connection
  handler ends, which removes that subscriber and no other.
\<close>

theorem failed_send_not_retried_nor_unregistered:
  "connected_frontends (snd (broadcast_to_frontends send_ok message b)) = connected_frontends b
   \<and> attempted (snd (broadcast_to_frontends send_ok message b))
       = attempted b @ map (\<lambda>c. (c, message)) (connected_frontends b)
   \<and> (distinct (connected_frontends b) \<longrightarrow>
        (\<forall>c. count_list (map fst (drop (length (attempted b))
                 (attempted (snd (broadcast_to_frontends send_ok message b))))) c
             = (if c \<in> set (connected_frontends b) then 1 else 0)))
   \<and> (distinct (connected_frontends b) \<longrightarrow>
        (\<forall>c. count_list (map fst (drop (length (delivered b))
                 (delivered (snd (broadcast_to_frontends send_ok message b))))) c
             = (if c \<in> set (connected_frontends b) \<and> send_ok c then 1 else 0)))
   \<and> snd (snd (keep_alive pings c b)) = b
   \<and> (c \<in> set (connected_frontends b) \<longrightarrow>
        keep_alive (replicate n True @ False # rest) c b = (Suc n, True, b))
   \<and> (c \<in> set (connected_frontends b) \<longrightarrow>
        (\<exists>b'. unregister c b = Inr b'
           \<and> set (connected_frontends b') = set (connected_frontends b) - {c}))"
proof (intro conjI impI allI)
  fix c'
  assume d: "distinct (connected_frontends b)"
  have "count_list xs c' = (if c' \<in> set xs then 1 else 0)" if "distinct xs" for xs :: "client list"
    using that by (induction xs) auto
  with d show "count_list (map fst (drop (length (attempted b))
                 (attempted (snd (broadcast_to_frontends send_ok message b))))) c'
             = (if c' \<in> set (connected_frontends b) then 1 else 0)"
    by (simp add: broadcast_manager comp_def)
next
  fix c'
  assume d: "distinct (connected_frontends b)"
  have "count_list (filter send_ok xs) c' = (if c' \<in> set xs \<and> send_ok c' then 1 else 0)"
    if "distinct xs" for xs
    using that by (induction xs) auto
  with d show "count_list (map fst (drop (length (delivered b))
                 (delivered (snd (broadcast_to_frontends send_ok message b))))) c'
             = (if c' \<in> set (connected_frontends b) \<and> send_ok c' then 1 else 0)"
    by (simp add: broadcast_manager comp_def)
next
  assume "c \<in> set (connected_frontends b)"
  then show "\<exists>b'. unregister c b = Inr b'
           \<and> set (connected_frontends b') = set (connected_frontends b) - {c}"
    by (auto simp: unregister_def)
qed (simp_all add: broadcast_connected broadcast_manager keep_alive_state keep_alive_failed)

theorem failed_send_not_retried_nor_unregistered_witness:
  "distinct (connected_frontends demo_manager) \<and> 2 \<in> set (connected_frontends demo_manager)
   \<and> \<not> demo_send_ok 2
   \<and> connected_frontends (snd (broadcast_to_frontends demo_send_ok demo_event demo_manager))
       = [1, 2, 3]
   \<and> attempted (snd (broadcast_to_frontends demo_send_ok demo_event demo_manager))
       = [(1, demo_event), (2, demo_event), (3, demo_event)]
   \<and> count_list (map fst (drop (length (attempted demo_manager))
        (attempted (snd (broadcast_to_frontends demo_send_ok demo_event demo_manager))))) 2 = 1
   \<and> count_list (map fst (drop (length (delivered demo_manager))
        (delivered (snd (broadcast_to_frontends demo_send_ok demo_event demo_manager))))) 2 = 0
   \<and> count_list (map fst (drop (length (delivered demo_manager))
        (delivered (snd (broadcast_to_frontends demo_send_ok demo_event demo_manager))))) 3 = 1
   \<and> keep_alive (replicate 1 True @ False # []) 2 demo_manager = (Suc 1, True, demo_manager)
   \<and> (\<exists>b'. unregister 2 demo_manager = Inr b' \<and> set (connected_frontends b') = {1, 3})"
proof -
  note t = failed_send_not_retried_nor_unregistered[of demo_send_ok demo_event demo_manager
      "[]" 2 1 "[]"]
  have d: "distinct (connected_frontends demo_manager)" by (simp add: demo_manager_def)
  have m: "2 \<in> set (connected_frontends demo_manager)" by (simp add: demo_manager_def)
  have m3: "3 \<in> set (connected_frontends demo_manager)" by (simp add: demo_manager_def)
  have s: "\<not> demo_send_ok 2" "demo_send_ok 3" by (simp_all add: demo_send_ok_def)
  have cf: "connected_frontends demo_manager = [1, 2, 3]" by (simp add: demo_manager_def)
  have at: "attempted demo_manager = []" by (simp add: demo_manager_def)
  from t have t1: "connected_frontends (snd (broadcast_to_frontends demo_send_ok demo_event demo_manager))
       = connected_frontends demo_manager"
    by (rule conjunct1)
  from t have ta: "attempted (snd (broadcast_to_frontends demo_send_ok demo_event demo_manager))
       = attempted demo_manager @ map (\<lambda>c. (c, demo_event)) (connected_frontends demo_manager)"
    by (elim conjE)
  from t d have t3: "\<And>c. count_list (map fst (drop (length (attempted demo_manager))
        (attempted (snd (broadcast_to_frontends demo_send_ok demo_event demo_manager))))) c
        = (if c \<in> set (connected_frontends demo_manager) then 1 else 0)"
    by (elim conjE) (rule allE, erule (1) mp, assumption)
  from t d have t2: "\<And>c. count_list (map fst (drop (length (delivered demo_manager))
        (delivered (snd (broadcast_to_frontends demo_send_ok demo_event demo_manager))))) c
        = (if c \<in> set (connected_frontends demo_manager) \<and> demo_send_ok c then 1 else 0)"
    by (elim conjE) (rule allE, erule (1) mp[where P = "distinct (connected_frontends demo_manager)"
        and Q = "\<forall>c. count_list (map fst (drop (length (delivered demo_manager))
        (delivered (snd (broadcast_to_frontends demo_send_ok demo_event demo_manager))))) c
        = (if c \<in> set (connected_frontends demo_manager) \<and> demo_send_ok c then 1 else 0)"],
        assumption)
  from t m have t4: "keep_alive (replicate 1 True @ False # []) 2 demo_manager
      = (Suc 1, True, demo_manager)"
    by (elim conjE) (erule (1) mp)
  from t m have t5: "\<exists>b'. unregister 2 demo_manager = Inr b'
      \<and> set (connected_frontends b') = set (connected_frontends demo_manager) - {2}"
    by (elim conjE) (erule (1) mp)
  have 1: "connected_frontends (snd (broadcast_to_frontends demo_send_ok demo_event demo_manager))
       = [1, 2, 3]"
    using t1 cf by (rule trans)
  have a: "attempted (snd (broadcast_to_frontends demo_send_ok demo_event demo_manager))
       = [(1, demo_event), (2, demo_event), (3, demo_event)]"
    unfolding ta at cf by simp
  have a2: "count_list (map fst (drop (length (attempted demo_manager))
        (attempted (snd (broadcast_to_frontends demo_send_ok demo_event demo_manager))))) 2 = 1"
    using m by (simp only: t3 if_True)
  have 2: "count_list (map fst (drop (length (delivered demo_manager))
        (delivered (snd (broadcast_to_frontends demo_send_ok demo_event demo_manager))))) 2 = 0"
    using s(1) by (simp only: t2 if_False simp_thms)
  have 3: "count_list (map fst (drop (length (delivered demo_manager))
        (delivered (snd (broadcast_to_frontends demo_send_ok demo_event demo_manager))))) 3 = 1"
    using s(2) m3 by (simp only: t2 if_True simp_thms)
  have st: "set (connected_frontends demo_manager) - {2} = {1, 3}"
    unfolding cf by auto
  from t5 have 5: "\<exists>b'. unregister 2 demo_manager = Inr b' \<and> set (connected_frontends b') = {1, 3}"
    unfolding st .
  show ?thesis
    by (intro conjI d m s(1) 1 a a2 2 3 t4 5)
qed

section \<open>Cross-Instance Sync Watcher: monotonic acceptance\<close>

lemma watch_tick_mono: "last_known_version b \<le> last_known_version (watch_tick cd now send_ok fs b)"
  by (auto simp: watch_tick_def Let_def broadcast_last_known
      split: json.splits option.splits)

lemma watch_run_mono: "last_known_version b \<le> last_known_version (watch_run cd envs b)"
proof (induction envs arbitrary: b)
  case Nil
  then show ?case by simp
next
  case (Cons e envs)
  obtain now send_ok fs where e: "e = (now, send_ok, fs)" by (cases e)
  have "last_known_version b \<le> last_known_version (watch_tick cd now send_ok fs b)"
    by (rule watch_tick_mono)
  also have "\<dots> \<le> last_known_version (watch_run cd envs (watch_tick cd now send_ok fs b))"
    by (rule Cons.IH)
  finally show ?case by (simp add: e)
qed

text \<open>
  Claim C4. On a round that finds a marker record (a dict with a project name and a
  numeric version \<open>v\<close>): if \<open>v\<close> is at most the last-seen version the round changes
  nothing, so it broadcasts nothing; if \<open>v\<close> is greater, the last-seen version becomes
  \<open>v\<close>. Over any run of rounds, whatever the disk holds, the last-seen version never
  decreases.
\<close>

theorem watcher_monotonic:
  assumes "read_current_project cd fs = JDict info"
    and "map_of info ''project_name'' = Some name"
    and "py_num (marker_version info) = Some v"
  shows "(v \<le> last_known_version b \<longrightarrow> watch_tick cd now send_ok fs b = b)
       \<and> (last_known_version b < v \<longrightarrow>
            last_known_version (watch_tick cd now send_ok fs b) = v)
       \<and> last_known_version b \<le> last_known_version (watch_run cd envs b)"
proof (intro conjI impI)
  assume "v \<le> last_known_version b"
  with assms show "watch_tick cd now send_ok fs b = b"
    by (simp add: watch_tick_def Let_def)
next
  assume "last_known_version b < v"
  with assms show "last_known_version (watch_tick cd now send_ok fs b) = v"
    by (auto simp: watch_tick_def Let_def broadcast_last_known split: json.splits option.splits)
next
  show "last_known_version b \<le> last_known_version (watch_run cd envs b)"
    by (rule watch_run_mono)
qed

lemma strip_demo_marker:
  "universal_newlines ''{\"project_name\": \"demo1\", \"version\": 7}''
     = ''{\"project_name\": \"demo1\", \"version\": 7}''"
  "ascii_strip ''{\"project_name\": \"demo1\", \"version\": 7}''
     = ''{\"project_name\": \"demo1\", \"version\": 7}''"
  by (simp_all add: ascii_strip_def is_space_def)

lemma demo_marker:
  "read_current_project demo_codec demo_disk
     = JDict [(''project_name'', JStr ''demo1''), (''version'', JInt 7)]"
  by (simp add: read_current_project_def demo_disk_def read_json_file_def strip_demo_marker
      demo_codec_def demo_texts_def)

theorem watcher_monotonic_witness:
  "read_current_project demo_codec demo_disk
       = JDict [(''project_name'', JStr ''demo1''), (''version'', JInt 7)]
   \<and> map_of [(''project_name'', JStr ''demo1''), (''version'', JInt 7)] ''project_name''
       = Some (JStr ''demo1'')
   \<and> py_num (marker_version [(''project_name'', JStr ''demo1''), (''version'', JInt 7)]) = Some 7
   \<and> 7 \<le> last_known_version (demo_manager\<lparr>last_known_version := 7\<rparr>)
   \<and> watch_tick demo_codec demo_clock demo_send_ok demo_disk
        (demo_manager\<lparr>last_known_version := 7\<rparr>) = demo_manager\<lparr>last_known_version := 7\<rparr>
   \<and> last_known_version demo_manager < 7
   \<and> last_known_version (watch_tick demo_codec demo_clock demo_send_ok demo_disk demo_manager) = 7"
proof -
  have n: "map_of [(''project_name'', JStr ''demo1''), (''version'', JInt 7)] ''project_name''
       = Some (JStr ''demo1'')"
    by simp
  have v: "py_num (marker_version [(''project_name'', JStr ''demo1''), (''version'', JInt 7)]) = Some 7"
    by (simp add: marker_version_def)
  note t7 = watcher_monotonic[OF demo_marker n v,
      of "demo_manager\<lparr>last_known_version := 7\<rparr>" demo_clock demo_send_ok "[]"]
  note t0 = watcher_monotonic[OF demo_marker n v, of demo_manager demo_clock demo_send_ok "[]"]
  have le: "7 \<le> last_known_version (demo_manager\<lparr>last_known_version := 7\<rparr>)" by simp
  have lt: "last_known_version demo_manager < 7" by (simp add: demo_manager_def)
  from t7 le have 1: "watch_tick demo_codec demo_clock demo_send_ok demo_disk
        (demo_manager\<lparr>last_known_version := 7\<rparr>) = demo_manager\<lparr>last_known_version := 7\<rparr>"
    by (elim conjE) (erule (1) mp)
  from t0 lt have 2: "last_known_version (watch_tick demo_codec demo_clock demo_send_ok demo_disk demo_manager) = 7"
    by (elim conjE) (erule (1) mp)
  show ?thesis
    by (intro conjI demo_marker n v le 1 lt 2)
qed

section \<open>State Store: deleting a project\<close>

lemma delete_dir_returns:
  "project_exists fs p \<Longrightarrow> \<exists>d. delete_project_directory tree_stays fs p = Inr d"
  by (simp add: delete_project_directory_def)

lemma handle_delete_active:
  assumes "project_name \<noteq> []" and "project_exists (storage w) project_name"
    and "read_current_project cd (storage w) = JDict info"
    and "is_active_project cd w project_name"
  shows "current_project_data 
             (snd (handle_delete_project cd now send_ok tree_stays project_name w))
           = cleared_state (current_project_data w) (state_version w + 1) (now_iso now)"
    and "state_version 
             (snd (handle_delete_project cd now send_ok tree_stays project_name w))
           = state_version w + 1"
    and "manager 
             (snd (handle_delete_project cd now send_ok tree_stays project_name w))
           = snd (broadcast_to_frontends send_ok
                (delete_message (state_version w + 1) (now_iso now) project_name)
                (set_current_project_data
                   (cleared_state (current_project_data w) (state_version w + 1) (now_iso now))
                   (manager w)))"
  using assms
  by (auto simp: handle_delete_project_def is_active_project_def cleared_state_def Let_def
        delete_project_directory_def
      split: sum.splits error.splits)

lemma handle_delete_inactive:
  assumes "project_name \<noteq> []" and "project_exists (storage w) project_name"
    and "read_current_project cd (storage w) = JDict info"
    and "\<not> is_active_project cd w project_name"
  shows "current_project_data 
             (snd (handle_delete_project cd now send_ok tree_stays project_name w))
           = current_project_data w"
    and "state_version 
             (snd (handle_delete_project cd now send_ok tree_stays project_name w))
           = state_version w"
    and "manager 
             (snd (handle_delete_project cd now send_ok tree_stays project_name w))
           = manager w"
  using assms
  by (auto simp: handle_delete_project_def is_active_project_def Let_def
        delete_project_directory_def
      split: sum.splits error.splits)

text \<open>
  Claim C9, amended. The handler takes a project as active when the State Store names it
  or when the shared marker record names it. Deleting an active project clears the State
  Store (empty project name, empty documents), bumps the version by exactly 1 and
  broadcasts the \<open>project_deleted\<close> event; deleting a project that neither the State
  Store nor the marker record names leaves the State Store completely untouched (no
  field changes, no version bump, no deletion broadcast). This holds whether or not the
  operating system let the folder go.
\<close>

theorem delete_project_state_store:
  assumes "project_name \<noteq> []" and "project_exists (storage w) project_name"
    and "read_current_project cd (storage w) = JDict info"
  shows "(is_active_project cd w project_name \<longrightarrow>
            current_project_data 
             (snd (handle_delete_project cd now send_ok tree_stays project_name w))
              = cleared_state (current_project_data w) (state_version w + 1) (now_iso now)
          \<and> state_version 
             (snd (handle_delete_project cd now send_ok tree_stays project_name w))
              = state_version w + 1
          \<and> manager 
             (snd (handle_delete_project cd now send_ok tree_stays project_name w))
              = snd (broadcast_to_frontends send_ok
                  (delete_message (state_version w + 1) (now_iso now) project_name)
                  (set_current_project_data
                    (cleared_state (current_project_data w) (state_version w + 1) (now_iso now))
                    (manager w))))
       \<and> (\<not> is_active_project cd w project_name \<longrightarrow>
            current_project_data 
             (snd (handle_delete_project cd now send_ok tree_stays project_name w))
              = current_project_data w
          \<and> state_version 
             (snd (handle_delete_project cd now send_ok tree_stays project_name w))
              = state_version w
          \<and> manager 
             (snd (handle_delete_project cd now send_ok tree_stays project_name w))
              = manager w)"
proof (intro conjI impI)
  assume a: "is_active_project cd w project_name"
  show "current_project_data 
             (snd (handle_delete_project cd now send_ok tree_stays project_name w))
              = cleared_state (current_project_data w) (state_version w + 1) (now_iso now)"
    by (rule handle_delete_active(1)[OF assms a])
  show "state_version 
             (snd (handle_delete_project cd now send_ok tree_stays project_name w))
              = state_version w + 1"
    by (rule handle_delete_active(2)[OF assms a])
  show "manager 
             (snd (handle_delete_project cd now send_ok tree_stays project_name w))
              = snd (broadcast_to_frontends send_ok
                  (delete_message (state_version w + 1) (now_iso now) project_name)
                  (set_current_project_data
                    (cleared_state (current_project_data w) (state_version w + 1) (now_iso now))
                    (manager w)))"
    by (rule handle_delete_active(3)[OF assms a])
next
  assume b: "\<not> is_active_project cd w project_name"
  show "current_project_data 
             (snd (handle_delete_project cd now send_ok tree_stays project_name w))
              = current_project_data w"
    by (rule handle_delete_inactive(1)[OF assms b])
  show "state_version 
             (snd (handle_delete_project cd now send_ok tree_stays project_name w))
              = state_version w"
    by (rule handle_delete_inactive(2)[OF assms b])
  show "manager 
             (snd (handle_delete_project cd now send_ok tree_stays project_name w))
              = manager w"
    by (rule handle_delete_inactive(3)[OF assms b])
qed

lemma demo_world_storage: "storage demo_world = demo_disk" "storage demo_world_other = demo_disk"
  by (simp_all add: demo_world_def demo_world_other_def initial_world_def)

lemma demo_projects: "project_exists demo_disk ''demo1''" "project_exists demo_disk ''demo2''"
  by (simp_all add: project_exists_def demo_disk_def)

lemma demo_active:
  "is_active_project demo_codec demo_world ''demo1''"
  "is_active_project demo_codec demo_world_other ''demo1''"
  "\<not> is_active_project demo_codec demo_world ''demo2''"
  by (simp_all add: is_active_project_def demo_world_storage demo_marker)
     (simp_all add: demo_world_def demo_world_other_def initial_world_def)

theorem delete_project_state_store_witness:
  "''demo1'' \<noteq> [] \<and> project_exists (storage demo_world) ''demo1''
   \<and> read_current_project demo_codec (storage demo_world)
        = JDict [(''project_name'', JStr ''demo1''), (''version'', JInt 7)]
   \<and> is_active_project demo_codec demo_world ''demo1''
   \<and> st_project_name (current_project_data
        (snd (handle_delete_project demo_codec demo_clock demo_send_ok False ''demo1'' demo_world))) = []
   \<and> st_requirements (current_project_data
        (snd (handle_delete_project demo_codec demo_clock demo_send_ok False ''demo1'' demo_world)))
        = JDict []
   \<and> state_version (snd (handle_delete_project demo_codec demo_clock demo_send_ok False ''demo1''
        demo_world)) = 3
   \<and> (1, delete_message 3 (now_iso demo_clock) ''demo1'')
        \<in> set (delivered (manager
            (snd (handle_delete_project demo_codec demo_clock demo_send_ok False ''demo1'' demo_world))))
   \<and> ''demo2'' \<noteq> [] \<and> project_exists (storage demo_world) ''demo2''
   \<and> \<not> is_active_project demo_codec demo_world ''demo2''
   \<and> current_project_data
        (snd (handle_delete_project demo_codec demo_clock demo_send_ok False ''demo2'' demo_world))
        = current_project_data demo_world
   \<and> state_version (snd (handle_delete_project demo_codec demo_clock demo_send_ok False ''demo2''
        demo_world)) = state_version demo_world
   \<and> manager (snd (handle_delete_project demo_codec demo_clock demo_send_ok False ''demo2''
        demo_world)) = manager demo_world"
proof -
  have ne: "''demo1'' \<noteq> []" "''demo2'' \<noteq> []" by simp_all
  have ex: "project_exists (storage demo_world) ''demo1''" "project_exists (storage demo_world) ''demo2''"
    by (simp_all add: demo_world_storage demo_projects)
  have mk: "read_current_project demo_codec (storage demo_world)
        = JDict [(''project_name'', JStr ''demo1''), (''version'', JInt 7)]"
    by (simp add: demo_world_storage demo_marker)
  note t1 = delete_project_state_store[where tree_stays = False and now = demo_clock
      and send_ok = demo_send_ok, OF ne(1) ex(1) mk]
  note t2 = delete_project_state_store[where tree_stays = False and now = demo_clock
      and send_ok = demo_send_ok, OF ne(2) ex(2) mk]
  have sv: "state_version demo_world + 1 = 3"
    by (simp add: demo_world_def initial_world_def)
  from t1 demo_active(1)
  have c: "current_project_data
        (snd (handle_delete_project demo_codec demo_clock demo_send_ok False ''demo1'' demo_world))
        = cleared_state (current_project_data demo_world) 3 (now_iso demo_clock)"
    and v: "state_version (snd (handle_delete_project demo_codec demo_clock demo_send_ok False
        ''demo1'' demo_world)) = 3"
    and m: "manager (snd (handle_delete_project demo_codec demo_clock demo_send_ok False ''demo1''
        demo_world)) = snd (broadcast_to_frontends demo_send_ok
                  (delete_message 3 (now_iso demo_clock) ''demo1'')
                  (set_current_project_data
                    (cleared_state (current_project_data demo_world) 3 (now_iso demo_clock))
                    (manager demo_world)))"
    unfolding sv by blast+
  have 1: "st_project_name (current_project_data
        (snd (handle_delete_project demo_codec demo_clock demo_send_ok False ''demo1'' demo_world))) = []"
    unfolding c by (simp add: cleared_state_def)
  have 2: "st_requirements (current_project_data
        (snd (handle_delete_project demo_codec demo_clock demo_send_ok False ''demo1'' demo_world)))
        = JDict []"
    unfolding c by (simp add: cleared_state_def)
  have 3: "(1, delete_message 3 (now_iso demo_clock) ''demo1'')
        \<in> set (delivered (manager
            (snd (handle_delete_project demo_codec demo_clock demo_send_ok False ''demo1'' demo_world))))"
    unfolding m
    by (simp add: broadcast_manager set_current_project_data_def demo_world_def demo_manager_def
        demo_send_ok_def)
  from t2 demo_active(3)
  have 4: "current_project_data
        (snd (handle_delete_project demo_codec demo_clock demo_send_ok False ''demo2'' demo_world))
        = current_project_data demo_world"
    and 5: "state_version (snd (handle_delete_project demo_codec demo_clock demo_send_ok False ''demo2''
        demo_world)) = state_version demo_world"
    and 6: "manager (snd (handle_delete_project demo_codec demo_clock demo_send_ok False ''demo2''
        demo_world)) = manager demo_world"
    by blast+
  show ?thesis
    by (intro conjI ne ex mk demo_active(1) demo_active(3) 1 2 v 3 4 5 6)
qed

text \<open>
  Claim C9, as stated, has the State Store untouched when the deleted project is not the
  one it holds. Here the State Store holds \<open>demo2\<close>, the marker record names \<open>demo1\<close>
  (another process selected it), and deleting \<open>demo1\<close> clears the State Store.
\<close>

theorem delete_other_project_clears_store_counterexample:
  "st_project_name (current_project_data demo_world_other) = ''demo2''
   \<and> ''demo1'' \<noteq> ''demo2''
   \<and> st_project_name (current_project_data
        (snd (handle_delete_project demo_codec demo_clock demo_send_ok False ''demo1''
           demo_world_other))) = []
   \<and> state_version (snd (handle_delete_project demo_codec demo_clock demo_send_ok False ''demo1''
        demo_world_other)) = state_version demo_world_other + 1
   \<and> current_project_data
        (snd (handle_delete_project demo_codec demo_clock demo_send_ok False ''demo1''
           demo_world_other)) \<noteq> current_project_data demo_world_other"
proof -
  have ne: "''demo1'' \<noteq> []" by simp
  have ex: "project_exists (storage demo_world_other) ''demo1''"
    by (simp add: demo_world_storage demo_projects)
  have mk: "read_current_project demo_codec (storage demo_world_other)
        = JDict [(''project_name'', JStr ''demo1''), (''version'', JInt 7)]"
    by (simp add: demo_world_storage demo_marker)
  have nm: "st_project_name (current_project_data demo_world_other) = ''demo2''"
    by (simp add: demo_world_other_def initial_world_def)
  have c: "current_project_data
        (snd (handle_delete_project demo_codec demo_clock demo_send_ok False ''demo1''
           demo_world_other))
        = cleared_state (current_project_data demo_world_other)
            (state_version demo_world_other + 1) (now_iso demo_clock)"
    by (rule handle_delete_active(1)[OF ne ex mk demo_active(2)])
  have v: "state_version (snd (handle_delete_project demo_codec demo_clock demo_send_ok False ''demo1''
        demo_world_other)) = state_version demo_world_other + 1"
    by (rule handle_delete_active(2)[OF ne ex mk demo_active(2)])
  have 1: "st_project_name (current_project_data
        (snd (handle_delete_project demo_codec demo_clock demo_send_ok False ''demo1''
           demo_world_other))) = []"
    unfolding c by (simp add: cleared_state_def)
  have 2: "current_project_data
        (snd (handle_delete_project demo_codec demo_clock demo_send_ok False ''demo1''
           demo_world_other)) \<noteq> current_project_data demo_world_other"
  proof
    assume "current_project_data
        (snd (handle_delete_project demo_codec demo_clock demo_send_ok False ''demo1''
           demo_world_other)) = current_project_data demo_world_other"
    then have "st_project_name (current_project_data
        (snd (handle_delete_project demo_codec demo_clock demo_send_ok False ''demo1''
           demo_world_other))) = st_project_name (current_project_data demo_world_other)"
      by simp
    with 1 nm show False by simp
  qed
  show ?thesis by (intro conjI nm 1 v 2) simp
qed

section \<open>State Store: the version counter\<close>

text \<open>
  The three handlers modelled either bump \<open>state_version\<close> by exactly 1, stamping the
  new version and the time into the State Store, or leave version and State Store as
  they were.
\<close>

lemma handle_update_version:
  assumes "handle_update_project_files cd now send_ok args w = (s, w')"
  shows "(state_version w' = state_version w + 1
          \<and> st_version (current_project_data w') = state_version w + 1
          \<and> st_last_updated (current_project_data w') = now_iso now)
       \<or> (s = StatusError \<and> state_version w' = state_version w
          \<and> current_project_data w' = current_project_data w)"
  using assms
  by (auto simp: handle_update_project_files_def Let_def
      split: option.splits prod.splits sum.splits if_splits)

lemma handle_select_version:
  assumes "handle_select_project cd now send_ok react_raises project_name w = (s, w')"
  shows "(state_version w' = state_version w + 1
          \<and> st_version (current_project_data w') = state_version w + 1
          \<and> st_last_updated (current_project_data w') = now_iso now)
       \<or> (s = StatusError \<and> state_version w' = state_version w
          \<and> current_project_data w' = current_project_data w)"
  using assms
  by (auto simp: handle_select_project_def Let_def split: option.splits if_splits)

lemma handle_delete_version:
  assumes "handle_delete_project cd now send_ok tree_stays project_name w = (s, w')"
  shows "(state_version w' = state_version w + 1
          \<and> st_version (current_project_data w') = state_version w + 1
          \<and> st_last_updated (current_project_data w') = now_iso now)
       \<or> (state_version w' = state_version w
          \<and> current_project_data w' = current_project_data w)"
  using assms
  by (auto simp: handle_delete_project_def Let_def
      split: json.splits sum.splits error.splits if_splits)

lemma periodic_broadcast_version:
  "state_version (fst (periodic_broadcast cd now send_ok (w, lbd))) = state_version w
   \<and> st_version (current_project_data (fst (periodic_broadcast cd now send_ok (w, lbd))))
       = st_version (current_project_data w)
   \<and> st_last_updated (current_project_data (fst (periodic_broadcast cd now send_ok (w, lbd))))
       = st_last_updated (current_project_data w)"
  by (simp add: periodic_broadcast_def Let_def split: option.splits)

lemma periodic_broadcast_documents:
  "st_project_name (current_project_data w) \<noteq> [] \<Longrightarrow>
   read_project_files cd (storage w) (st_project_name (current_project_data w)) = Some pf \<Longrightarrow>
   dumps_sorted cd (JDict [(''project_name'', JStr (st_project_name (current_project_data w))),
                           (''requirements'', pf_requirements pf),
                           (''ddd'', pf_ddd pf),
                           (''frontend_data'', pf_frontend_data pf),
                           (''technical_architecture'', pf_technical_architecture pf)])
     \<noteq> dumps_sorted cd lbd \<Longrightarrow>
   current_project_data (fst (periodic_broadcast cd now send_ok (w, lbd)))
     = (current_project_data w)
         \<lparr>st_requirements := pf_requirements pf, st_ddd := pf_ddd pf,
          st_frontend_data := pf_frontend_data pf,
          st_technical_architecture := pf_technical_architecture pf\<rparr>"
  by (simp add: periodic_broadcast_def Let_def)

lemma strip_demo_texts:
  "universal_newlines ''{}'' = ''{}''"
  "ascii_strip ''{}'' = ''{}''"
  "universal_newlines ''{\"features\": []}'' = ''{\"features\": []}''"
  "ascii_strip ''{\"features\": []}'' = ''{\"features\": []}''"
  "read_text_file ''# demo1'' = ''# demo1''"
  by (simp_all add: ascii_strip_def is_space_def read_text_file_def)

lemma demo_project_files:
  "read_project_files demo_codec demo_disk ''demo1'' =
     Some \<lparr>pf_requirements = JDict [(''features'', JList [])],
           pf_ddd = JDict [], pf_frontend_data = JDict [],
           pf_technical_architecture = JDict [], pf_summary = ''# demo1''\<rparr>"
  by (simp add: read_project_files_def demo_disk_def read_json_file_def strip_demo_texts
      demo_codec_def demo_texts_def)

text \<open>
  Claim C1 asks that no operation changes the documents of the State Store without
  bumping the version, the Periodic Reconciliation included. One round of
  \<^verbatim>\<open>periodic_broadcast\<close> on a State Store holding \<open>demo1\<close> at version 2, with a
  \<^verbatim>\<open>requirement.js\<close> on disk that differs from the document in memory: the document is
  overwritten from disk, and \<open>state_version\<close>, the stored version and \<open>last_updated\<close>
  stay as they were.
\<close>

theorem periodic_broadcast_keeps_version:
  "st_requirements (current_project_data demo_world) = JDict [(''features'', JList [JStr ''login''])]
   \<and> st_requirements (current_project_data
        (fst (periodic_broadcast demo_codec demo_clock demo_send_ok (demo_world, JNull))))
       = JDict [(''features'', JList [])]
   \<and> state_version (fst (periodic_broadcast demo_codec demo_clock demo_send_ok (demo_world, JNull)))
       = state_version demo_world
   \<and> st_version (current_project_data
        (fst (periodic_broadcast demo_codec demo_clock demo_send_ok (demo_world, JNull))))
       = st_version (current_project_data demo_world)
   \<and> st_last_updated (current_project_data
        (fst (periodic_broadcast demo_codec demo_clock demo_send_ok (demo_world, JNull))))
       = st_last_updated (current_project_data demo_world)"
proof -
  have n: "st_project_name (current_project_data demo_world) = ''demo1''"
    by (simp add: demo_world_def initial_world_def)
  have r: "st_requirements (current_project_data demo_world)
      = JDict [(''features'', JList [JStr ''login''])]"
    by (simp add: demo_world_def initial_world_def)
  have d: "current_project_data (fst (periodic_broadcast demo_codec demo_clock demo_send_ok
        (demo_world, JNull)))
     = (current_project_data demo_world)
         \<lparr>st_requirements := JDict [(''features'', JList [])], st_ddd := JDict [],
          st_frontend_data := JDict [], st_technical_architecture := JDict []\<rparr>"
    using periodic_broadcast_documents[of demo_world demo_codec _ JNull demo_clock demo_send_ok,
        OF _ demo_project_files[folded demo_world_storage(1) n]]
    by (simp add: n demo_codec_def)
  have 1: "st_requirements (current_project_data
        (fst (periodic_broadcast demo_codec demo_clock demo_send_ok (demo_world, JNull))))
       = JDict [(''features'', JList [])]"
    unfolding d by simp
  note v = periodic_broadcast_version[of demo_codec demo_clock demo_send_ok demo_world JNull]
  from r 1 v show ?thesis by blast
qed

section \<open>Merge Engine: the objects after a merge\<close>

lemma demo_heap_merge: "deep_merge_dict_h 3 demo_heap 0 2 = Some (demo_heap_after, 4)"
  by code_simp

lemma demo_value_merge:
  "deep_merge_dict [(''features'', JList [JStr ''login''])]
       [(''features'', JList [JStr ''login'', JStr ''pay''])]
     = [(''features'', JList [JStr ''login'', JStr ''pay''])]"
  by (simp add: py_in_def)

text \<open>
  Claim C6 asks that \<^verbatim>\<open>deep_merge_dict\<close> leave its arguments unmodified, every nested
  list of the base included. In the store below the base (address 0) holds the list
  \<^verbatim>\<open>["login"]\<close> under \<open>features\<close>, the update (address 2) the list
  \<^verbatim>\<open>["login", "pay"]\<close>. The call returns a new dict (address 4) with the merged
  document, and the base read back after the call holds \<^verbatim>\<open>["login", "pay"]\<close>: the
  append went to the list object the base shares with the result.
\<close>

theorem deep_merge_dict_mutates_base:
  "read_back 2 demo_heap (VRef 0) = Some (JDict [(''features'', JList [JStr ''login''])])
   \<and> read_back 2 demo_heap (VRef 2)
       = Some (JDict [(''features'', JList [JStr ''login'', JStr ''pay''])])
   \<and> deep_merge_dict_h 3 demo_heap 0 2 = Some (demo_heap_after, 4)
   \<and> read_back 2 demo_heap_after (VRef 4)
       = Some (JDict (deep_merge_dict [(''features'', JList [JStr ''login''])]
                        [(''features'', JList [JStr ''login'', JStr ''pay''])]))
   \<and> read_back 2 demo_heap_after (VRef 0)
       = Some (JDict [(''features'', JList [JStr ''login'', JStr ''pay''])])
   \<and> read_back 2 demo_heap_after (VRef 0) \<noteq> read_back 2 demo_heap (VRef 0)"
proof -
  have 1: "read_back 2 demo_heap (VRef 0) = Some (JDict [(''features'', JList [JStr ''login''])])"
    by code_simp
  have 2: "read_back 2 demo_heap (VRef 2)
       = Some (JDict [(''features'', JList [JStr ''login'', JStr ''pay''])])"
    by code_simp
  have 3: "read_back 2 demo_heap_after (VRef 4)
       = Some (JDict [(''features'', JList [JStr ''login'', JStr ''pay''])])"
    by code_simp
  have 4: "read_back 2 demo_heap_after (VRef 0)
       = Some (JDict [(''features'', JList [JStr ''login'', JStr ''pay''])])"
    by code_simp
  have 5: "read_back 2 demo_heap_after (VRef 0) \<noteq> read_back 2 demo_heap (VRef 0)"
    unfolding 1 4 by simp
  show ?thesis
    unfolding demo_value_merge by (intro conjI 1 2 demo_heap_merge 3 4 5)
qed

end
